theory Spec2Isabelle
  imports Complex_Main "HOL-Library.FSet" "HOL-Library.AList"
begin

section \<open>Conventions\<close>

text \<open>
  The development embeds the room registry (\<^verbatim>\<open>RoomManager\<close>, roomManager.ts), the room
  permission evaluator and moderation store (\<^verbatim>\<open>RoomPermissionManager\<close>, roomPermissions.ts),
  and the activity aggregator (\<^verbatim>\<open>RoomAnalyticsManager\<close>, roomAnalytics.ts).

  \<^item> A JavaScript \<^verbatim>\<open>Set<string>\<close> is a finite set \<open>string fset\<close>; \<^verbatim>\<open>.size\<close> is \<open>fcard\<close>.
  \<^item> A \<^verbatim>\<open>Map\<close> that is only looked up by key is a map \<open>string \<rightharpoonup> 'v\<close>; a \<^verbatim>\<open>Map\<close> whose
    values are iterated is an association list in insertion order
    (\<open>AList.update\<close> overwrites in place or appends, as \<^verbatim>\<open>Map.set\<close> does).
  \<^item> A \<^verbatim>\<open>Date\<close> is its number of milliseconds since the epoch, an \<open>int\<close>. Every operation
    takes the clock reading \<open>now\<close> as an argument; the several \<^verbatim>\<open>new Date()\<close> and
    \<^verbatim>\<open>Date.now()\<close> calls inside one operation all read that one value.
  \<^item> Mutation of the manager objects is explicit state passing: each operation returns the
    new state next to its result.
  \<^item> Logging, the Redis write-through (whose errors \<^verbatim>\<open>storeRoomInRedis\<close> swallows) and the
    socket.io transport join/leave are not part of the state; the events handed to
    \<^verbatim>\<open>broadcastRoomEvent\<close> are kept in a log.
\<close>

section \<open>Decimal rendering of numbers in template strings\<close>

fun showNat :: "nat \<Rightarrow> string" where
  "showNat n = (if n < 10 then [char_of (48 + n)]
                else showNat (n div 10) @ [char_of (48 + n mod 10)])"

declare showNat.simps [simp del]

definition showInt :: "int \<Rightarrow> string" where
  "showInt i = (if i < 0 then CHR ''-'' # showNat (nat (- i)) else showNat (nat i))"

section \<open>Data model of the room registry (roomManager.ts)\<close>

datatype RoomType = RT_class | RT_direct | RT_group | RT_system

fun roomTypeStr :: "RoomType \<Rightarrow> string" where
  "roomTypeStr RT_class = ''class''"
| "roomTypeStr RT_direct = ''direct''"
| "roomTypeStr RT_group = ''group''"
| "roomTypeStr RT_system = ''system''"

datatype ModerationLevel = ML_none | ML_basic | ML_strict

datatype UserRole = STUDENT | TEACHER | ADMIN

datatype RoomRole = R_owner | R_moderator | R_member

record RoomSettings =
  allowMessaging :: bool
  allowFileSharing :: bool
  allowVoiceChat :: bool
  allowVideoChat :: bool
  moderationLevel :: ModerationLevel
  messageRetention :: int
  autoCleanup :: bool
  notifyMemberJoin :: bool
  notifyMemberLeave :: bool
  notifyNewMessage :: bool

record RoomMetadata =
  totalMessages :: int
  totalMembers :: int
  activeMembers :: int
  lastMessageAt :: "int option"
  peakConcurrentUsers :: int
  tags :: "string list"
  isArchived :: bool
  archiveReason :: "string option"

text \<open>\<^verbatim>\<open>maxMembers\<close> is a JavaScript number that no code path validates (it comes from the
  client's room descriptor, and \<^verbatim>\<open>handleUpdateRoom\<close> overwrites it with any truthy number), so
  it need not be whole or positive. It is a real here: the finite numbers, with exact
  arithmetic.\<close>

record RoomInfo =
  roomId :: string
  roomType :: RoomType
  name :: string
  description :: "string option"
  classId :: "string option"
  ownerId :: string
  moderatorIds :: "string fset"
  memberIds :: "string fset"
  isPublic :: bool
  maxMembers :: real
  settings :: RoomSettings
  metadata :: RoomMetadata
  createdAt :: int
  lastActivity :: int

record RoomMember =
  m_userId :: string
  m_socketId :: string
  m_role :: RoomRole
  m_joinedAt :: int
  m_lastActivity :: int
  m_permissions :: "string fset"
  m_isMuted :: bool
  m_isBanned :: bool

text \<open>The part of a socket the managers read: \<^verbatim>\<open>socket.id\<close>, \<^verbatim>\<open>socket.data.userId\<close> and
  \<^verbatim>\<open>socket.data.userRole\<close>.\<close>

record Socket =
  sock_id :: string
  userId :: string
  userRole :: UserRole

text \<open>One call of \<^verbatim>\<open>broadcastRoomEvent(roomId, event, data, excludeSocketId?)\<close>; the payload
  of the two membership events carries \<^verbatim>\<open>userId\<close>, \<^verbatim>\<open>classId\<close>, \<^verbatim>\<open>className\<close> and
  \<^verbatim>\<open>timestamp\<close> (\<^verbatim>\<open>userName\<close> repeats \<^verbatim>\<open>userId\<close>).\<close>

record Broadcast =
  b_roomId :: string
  b_event :: string
  b_userId :: string
  b_classId :: string
  b_className :: string
  b_timestamp :: int
  b_exclude :: "string option"

record RoomManager =
  rooms :: "string \<rightharpoonup> RoomInfo"
  roomMembers :: "string \<rightharpoonup> (string \<times> RoomMember) list"
  userRooms :: "string \<rightharpoonup> string fset"
  broadcasts :: "Broadcast list"

definition newRoomManager :: RoomManager where
  "newRoomManager = \<lparr> rooms = Map.empty, roomMembers = Map.empty, userRooms = Map.empty,
                       broadcasts = [] \<rparr>"

record CreateRoomData =
  d_name :: string
  d_description :: "string option"
  d_roomType :: RoomType
  d_isPublic :: "bool option"
  d_maxMembers :: "real option"
  d_classId :: "string option"

record JoinOptions =
  o_role :: "RoomRole option"
  o_validateAccess :: "bool option"

record JoinResult =
  j_success :: bool
  j_message :: string
  j_roomInfo :: "RoomInfo option"

record LeaveResult =
  l_success :: bool
  l_message :: string

section \<open>Operations of the room registry\<close>

definition getDefaultRoomSettings :: RoomSettings where
  "getDefaultRoomSettings =
     \<lparr> allowMessaging = True, allowFileSharing = True, allowVoiceChat = False,
       allowVideoChat = False, moderationLevel = ML_basic, messageRetention = 30,
       autoCleanup = True, notifyMemberJoin = True, notifyMemberLeave = True,
       notifyNewMessage = True \<rparr>"

text \<open>\<^verbatim>\<open>x && {...}\<close> on an optional string: absent and the empty string are both falsy.\<close>

fun truthyStr :: "string option \<Rightarrow> string option" where
  "truthyStr None = None"
| "truthyStr (Some s) = (if s = [] then None else Some s)"

text \<open>\<^verbatim>\<open>createRoom\<close>. The id is \<^verbatim>\<open>`${roomType}:${Date.now()}_${Math.random().toString(36).substring(2)}`\<close>;
  the random suffix is the argument \<open>rnd\<close>. The function performs no check of \<open>roomData\<close>.
  Its \<^verbatim>\<open>catch\<close> branch (result \<^verbatim>\<open>null\<close>) has no raising statement in the model, so the
  result is always \<open>Some\<close>.\<close>

definition createRoom ::
  "RoomManager \<Rightarrow> string \<Rightarrow> CreateRoomData \<Rightarrow> int \<Rightarrow> string \<Rightarrow> RoomManager \<times> RoomInfo option" where
  "createRoom st creatorId roomData now rnd =
     (let rid = roomTypeStr (d_roomType roomData) @ '':'' @ showInt now @ ''_'' @ rnd;
          roomInfo = \<lparr> roomId = rid,
                       roomType = d_roomType roomData,
                       name = d_name roomData,
                       description = truthyStr (d_description roomData),
                       classId = truthyStr (d_classId roomData),
                       ownerId = creatorId,
                       moderatorIds = {|creatorId|},
                       memberIds = {|creatorId|},
                       isPublic = (case d_isPublic roomData of None \<Rightarrow> False | Some b \<Rightarrow> b),
                       maxMembers = (case d_maxMembers roomData of None \<Rightarrow> 50
                                     | Some n \<Rightarrow> if n = 0 then 50 else n),
                       settings = getDefaultRoomSettings,
                       metadata = \<lparr> totalMessages = 0, totalMembers = 1, activeMembers = 0,
                                     lastMessageAt = None, peakConcurrentUsers = 0,
                                     tags = [roomTypeStr (d_roomType roomData)],
                                     isArchived = False, archiveReason = None \<rparr>,
                       createdAt = now,
                       lastActivity = now \<rparr>;
          ur = (case userRooms st creatorId of None \<Rightarrow> {||} | Some s \<Rightarrow> s)
      in (st\<lparr> rooms := (rooms st)(rid \<mapsto> roomInfo),
               roomMembers := (roomMembers st)(rid \<mapsto> []),
               userRooms := (userRooms st)(creatorId \<mapsto> finsert rid ur) \<rparr>,
          Some roomInfo))"

definition canUserJoinRoom :: "string \<Rightarrow> RoomInfo \<Rightarrow> bool" where
  "canUserJoinRoom uid room =
     (if isPublic room then True
      else if uid |\<in>| memberIds room then True
      else if roomType room = RT_class \<and> truthyStr (classId room) \<noteq> None then True
      else False)"

definition getRoomPermissions :: "UserRole \<Rightarrow> RoomRole \<Rightarrow> string fset" where
  "getRoomPermissions uRole rRole =
     {|''room:view'', ''room:message''|}
     |\<union>| (if rRole = R_moderator \<or> rRole = R_owner
          then {|''room:moderate'', ''room:manage_members'', ''room:mute_users''|} else {||})
     |\<union>| (if rRole = R_owner
          then {|''room:delete'', ''room:update_settings'', ''room:add_moderators''|} else {||})
     |\<union>| (if uRole = ADMIN
          then {|''room:delete'', ''room:update_settings'', ''room:moderate'',
                 ''room:manage_members''|} else {||})"

definition joinRoom ::
  "RoomManager \<Rightarrow> Socket \<Rightarrow> string \<Rightarrow> JoinOptions \<Rightarrow> int \<Rightarrow> RoomManager \<times> JoinResult" where
  "joinRoom st socket rid options now =
     (let role = (case o_role options of None \<Rightarrow> R_member | Some r \<Rightarrow> r);
          validateAccess = (case o_validateAccess options of None \<Rightarrow> True | Some b \<Rightarrow> b)
      in case rooms st rid of
           None \<Rightarrow> (st, \<lparr> j_success = False, j_message = ''Room not found'', j_roomInfo = None \<rparr>)
         | Some room \<Rightarrow>
             if validateAccess \<and> \<not> canUserJoinRoom (userId socket) room
             then (st, \<lparr> j_success = False, j_message = ''Access denied to this room'',
                         j_roomInfo = None \<rparr>)
             else if real (fcard (memberIds room)) \<ge> maxMembers room
                     \<and> \<not> userId socket |\<in>| moderatorIds room
             then (st, \<lparr> j_success = False, j_message = ''Room is at maximum capacity'',
                         j_roomInfo = None \<rparr>)
             else
               let active = activeMembers (metadata room) + 1;
                   roomMember = \<lparr> m_userId = userId socket,
                                   m_socketId = sock_id socket,
                                   m_role = (if userId socket |\<in>| moderatorIds room then R_moderator
                                             else if ownerId room = userId socket then R_owner
                                             else role),
                                   m_joinedAt = now,
                                   m_lastActivity = now,
                                   m_permissions = getRoomPermissions (userRole socket) role,
                                   m_isMuted = False,
                                   m_isBanned = False \<rparr>;
                   roomMembersMap = (case roomMembers st rid of None \<Rightarrow> [] | Some m \<Rightarrow> m);
                   ur = (case userRooms st (userId socket) of None \<Rightarrow> {||} | Some s \<Rightarrow> s);
                   room' = room\<lparr> memberIds := finsert (userId socket) (memberIds room),
                                  lastActivity := now,
                                  metadata := (metadata room)\<lparr>
                                     activeMembers := active,
                                     peakConcurrentUsers :=
                                       (if active > peakConcurrentUsers (metadata room) then active
                                        else peakConcurrentUsers (metadata room)) \<rparr> \<rparr>;
                   ev = \<lparr> b_roomId = rid, b_event = ''user:joined_class'',
                           b_userId = userId socket,
                           b_classId = (case truthyStr (classId room) of None \<Rightarrow> rid | Some c \<Rightarrow> c),
                           b_className = name room, b_timestamp = now,
                           b_exclude = Some (sock_id socket) \<rparr>
               in (st\<lparr> rooms := (rooms st)(rid \<mapsto> room'),
                        roomMembers := (roomMembers st)
                           (rid \<mapsto> AList.update (userId socket) roomMember roomMembersMap),
                        userRooms := (userRooms st)(userId socket \<mapsto> finsert rid ur),
                        broadcasts := broadcasts st @ [ev] \<rparr>,
                   \<lparr> j_success = True, j_message = ''Successfully joined room'',
                     j_roomInfo = Some room' \<rparr>))"

definition leaveRoom ::
  "RoomManager \<Rightarrow> Socket \<Rightarrow> string \<Rightarrow> int \<Rightarrow> RoomManager \<times> LeaveResult" where
  "leaveRoom st socket rid now =
     (case rooms st rid of
        None \<Rightarrow> (st, \<lparr> l_success = False, l_message = ''Room not found'' \<rparr>)
      | Some room \<Rightarrow>
          let room' = room\<lparr> memberIds := memberIds room |-| {|userId socket|},
                             lastActivity := now,
                             metadata := (metadata room)\<lparr>
                                activeMembers := max 0 (activeMembers (metadata room) - 1) \<rparr> \<rparr>;
              ev = \<lparr> b_roomId = rid, b_event = ''user:left_class'',
                      b_userId = userId socket,
                      b_classId = (case truthyStr (classId room) of None \<Rightarrow> rid | Some c \<Rightarrow> c),
                      b_className = name room, b_timestamp = now,
                      b_exclude = None \<rparr>
          in (st\<lparr> rooms := (rooms st)(rid \<mapsto> room'),
                   roomMembers := (case roomMembers st rid of
                                     None \<Rightarrow> roomMembers st
                                   | Some m \<Rightarrow> (roomMembers st)
                                        (rid \<mapsto> AList.delete (userId socket) m)),
                   userRooms := (case userRooms st (userId socket) of
                                   None \<Rightarrow> userRooms st
                                 | Some s \<Rightarrow>
                                     if s |-| {|rid|} = {||}
                                     then (userRooms st)(userId socket := None)
                                     else (userRooms st)(userId socket \<mapsto> s |-| {|rid|})),
                   broadcasts := broadcasts st @ [ev] \<rparr>,
              \<lparr> l_success = True, l_message = ''Successfully left room'' \<rparr>))"

definition getRoomInfo :: "RoomManager \<Rightarrow> string \<Rightarrow> RoomInfo option" where
  "getRoomInfo st rid = rooms st rid"

definition getRoomMembers :: "RoomManager \<Rightarrow> string \<Rightarrow> RoomMember list" where
  "getRoomMembers st rid = (case roomMembers st rid of None \<Rightarrow> [] | Some m \<Rightarrow> map snd m)"

section \<open>Permission evaluator and moderation store (roomPermissions.ts)\<close>

record RoomPermissionContext =
  c_roomId :: string
  c_action :: string
  c_targetUserId :: "string option"

record PermissionResult =
  allowed :: bool
  reason :: "string option"

datatype ModerationType = Mute | Unmute | Kick | Ban | Unban | Warn | Timeout

text \<open>The argument of \<^verbatim>\<open>applyModerationAction\<close> is a \<^verbatim>\<open>ModerationAction\<close> without
  \<^verbatim>\<open>moderatorId\<close> and \<^verbatim>\<open>timestamp\<close>; the recorded action adds the two. \<^verbatim>\<open>duration\<close> is in
  minutes.\<close>

record ModerationRequest =
  a_type :: ModerationType
  a_roomId :: string
  a_targetUserId :: string
  a_reason :: "string option"
  a_duration :: "int option"

record ModerationAction = ModerationRequest +
  a_moderatorId :: string
  a_timestamp :: int

record ModerationResult =
  r_success :: bool
  r_message :: string

record RoomPermissionManager =
  moderationHistory :: "string \<rightharpoonup> ModerationAction list"
  userWarnings :: "string \<rightharpoonup> (string \<rightharpoonup> nat)"
  userCooldowns :: "string \<rightharpoonup> (string \<rightharpoonup> int)"
  mutedUsers :: "string \<rightharpoonup> (string \<rightharpoonup> int)"
  bannedUsers :: "string \<rightharpoonup> (string \<rightharpoonup> int)"

definition newRoomPermissionManager :: RoomPermissionManager where
  "newRoomPermissionManager =
     \<lparr> moderationHistory = Map.empty, userWarnings = Map.empty, userCooldowns = Map.empty,
       mutedUsers = Map.empty, bannedUsers = Map.empty \<rparr>"

text \<open>The environment's \<^verbatim>\<open>Date.prototype.toLocaleTimeString\<close> and \<^verbatim>\<open>toLocaleString\<close>, which
  depend on the host locale, are parameters.\<close>

record Locale =
  toLocaleTimeString :: "int \<Rightarrow> string"
  toLocaleString :: "int \<Rightarrow> string"

subsection \<open>Restriction state\<close>

text \<open>\<^verbatim>\<open>isUserMuted\<close> and \<^verbatim>\<open>isUserBanned\<close> delete an entry whose expiry lies before the clock
  reading; the returned state carries the deletion.\<close>

definition isUserMuted ::
  "RoomPermissionManager \<Rightarrow> string \<Rightarrow> string \<Rightarrow> int \<Rightarrow> bool \<times> RoomPermissionManager" where
  "isUserMuted pm rid uid now =
     (case mutedUsers pm rid of
        None \<Rightarrow> (False, pm)
      | Some roomMuted \<Rightarrow>
          (case roomMuted uid of
             None \<Rightarrow> (False, pm)
           | Some muteExpiry \<Rightarrow>
               if now > muteExpiry
               then (False, pm\<lparr> mutedUsers := (mutedUsers pm)(rid \<mapsto> roomMuted(uid := None)) \<rparr>)
               else (True, pm)))"

definition isUserBanned ::
  "RoomPermissionManager \<Rightarrow> string \<Rightarrow> string \<Rightarrow> int \<Rightarrow> bool \<times> RoomPermissionManager" where
  "isUserBanned pm rid uid now =
     (case bannedUsers pm rid of
        None \<Rightarrow> (False, pm)
      | Some roomBanned \<Rightarrow>
          (case roomBanned uid of
             None \<Rightarrow> (False, pm)
           | Some banExpiry \<Rightarrow>
               if now > banExpiry
               then (False, pm\<lparr> bannedUsers := (bannedUsers pm)(rid \<mapsto> roomBanned(uid := None)) \<rparr>)
               else (True, pm)))"

definition setUserMuted ::
  "RoomPermissionManager \<Rightarrow> string \<Rightarrow> string \<Rightarrow> int \<Rightarrow> RoomPermissionManager" where
  "setUserMuted pm rid uid expiry =
     (let roomMuted = (case mutedUsers pm rid of None \<Rightarrow> Map.empty | Some m \<Rightarrow> m)
      in pm\<lparr> mutedUsers := (mutedUsers pm)(rid \<mapsto> roomMuted(uid \<mapsto> expiry)) \<rparr>)"

definition removeUserMuted ::
  "RoomPermissionManager \<Rightarrow> string \<Rightarrow> string \<Rightarrow> RoomPermissionManager" where
  "removeUserMuted pm rid uid =
     (case mutedUsers pm rid of
        None \<Rightarrow> pm
      | Some roomMuted \<Rightarrow> pm\<lparr> mutedUsers := (mutedUsers pm)(rid \<mapsto> roomMuted(uid := None)) \<rparr>)"

definition setUserBanned ::
  "RoomPermissionManager \<Rightarrow> string \<Rightarrow> string \<Rightarrow> int \<Rightarrow> RoomPermissionManager" where
  "setUserBanned pm rid uid expiry =
     (let roomBanned = (case bannedUsers pm rid of None \<Rightarrow> Map.empty | Some m \<Rightarrow> m)
      in pm\<lparr> bannedUsers := (bannedUsers pm)(rid \<mapsto> roomBanned(uid \<mapsto> expiry)) \<rparr>)"

definition removeUserBanned ::
  "RoomPermissionManager \<Rightarrow> string \<Rightarrow> string \<Rightarrow> RoomPermissionManager" where
  "removeUserBanned pm rid uid =
     (case bannedUsers pm rid of
        None \<Rightarrow> pm
      | Some roomBanned \<Rightarrow> pm\<lparr> bannedUsers := (bannedUsers pm)(rid \<mapsto> roomBanned(uid := None)) \<rparr>)"

definition addUserWarning ::
  "RoomPermissionManager \<Rightarrow> string \<Rightarrow> string \<Rightarrow> RoomPermissionManager" where
  "addUserWarning pm rid uid =
     (let roomWarnings = (case userWarnings pm rid of None \<Rightarrow> Map.empty | Some m \<Rightarrow> m);
          currentWarnings = (case roomWarnings uid of None \<Rightarrow> 0 | Some n \<Rightarrow> n)
      in pm\<lparr> userWarnings := (userWarnings pm)(rid \<mapsto> roomWarnings(uid \<mapsto> currentWarnings + 1)) \<rparr>)"

definition getUserWarnings :: "RoomPermissionManager \<Rightarrow> string \<Rightarrow> string \<Rightarrow> nat" where
  "getUserWarnings pm rid uid =
     (case userWarnings pm rid of
        None \<Rightarrow> 0
      | Some roomWarnings \<Rightarrow> (case roomWarnings uid of None \<Rightarrow> 0 | Some n \<Rightarrow> n))"

definition isUserInCooldown ::
  "RoomPermissionManager \<Rightarrow> string \<Rightarrow> string \<Rightarrow> int \<Rightarrow> int \<Rightarrow> bool" where
  "isUserInCooldown pm rid uid cooldownSeconds now =
     (case userCooldowns pm rid of
        None \<Rightarrow> False
      | Some roomCooldowns \<Rightarrow>
          (case roomCooldowns uid of
             None \<Rightarrow> False
           | Some lastMessage \<Rightarrow> real_of_int (now - lastMessage) / 1000 < real_of_int cooldownSeconds))"

definition isMutedAction :: "string \<Rightarrow> bool" where
  "isMutedAction action =
     (action \<in> set [''message:send'', ''voice:join'', ''video:join'', ''file:upload''])"

definition recordModerationAction ::
  "RoomPermissionManager \<Rightarrow> ModerationAction \<Rightarrow> RoomPermissionManager" where
  "recordModerationAction pm action =
     (let history = (case moderationHistory pm (a_roomId action) of None \<Rightarrow> [] | Some h \<Rightarrow> h)
      in pm\<lparr> moderationHistory := (moderationHistory pm)(a_roomId action \<mapsto> history @ [action]) \<rparr>)"

subsection \<open>Permission decision\<close>

definition isTargetHigherRank :: "string \<Rightarrow> string \<Rightarrow> RoomInfo \<Rightarrow> bool" where
  "isTargetHigherRank actorId targetId room =
     (let isActorOwner = (ownerId room = actorId);
          isActorModerator = (actorId |\<in>| moderatorIds room);
          isTargetOwner = (ownerId room = targetId);
          isTargetModerator = (targetId |\<in>| moderatorIds room)
      in if isTargetOwner then \<not> isActorOwner
         else if isTargetModerator then \<not> isActorOwner \<and> \<not> isActorModerator
         else False)"

text \<open>The two shapes of result: \<^verbatim>\<open>{ allowed: false, reason }\<close> and \<^verbatim>\<open>{ allowed: true }\<close>.\<close>

definition deny :: "string \<Rightarrow> PermissionResult" where
  "deny r = \<lparr> allowed = False, reason = Some r \<rparr>"

definition allow :: PermissionResult where
  "allow = \<lparr> allowed = True, reason = None \<rparr>"

text \<open>\<^verbatim>\<open>targetUserId && isTargetHigherRank(...)\<close>: an absent or empty target id is falsy and
  skips the rank comparison.\<close>

definition targetOutranks :: "string \<Rightarrow> string option \<Rightarrow> RoomInfo \<Rightarrow> bool" where
  "targetOutranks actorId targetUserId room =
     (case targetUserId of
        None \<Rightarrow> False
      | Some t \<Rightarrow> t \<noteq> [] \<and> isTargetHigherRank actorId t room)"

text \<open>\<^verbatim>\<open>checkActionPermission\<close>: the \<^verbatim>\<open>switch\<close> on the action string, case by case in source
  order. \<^verbatim>\<open>room.settings\<close> is always present in a \<^verbatim>\<open>RoomInfo\<close>.\<close>

definition checkActionPermission ::
  "Socket \<Rightarrow> RoomMember \<Rightarrow> RoomInfo \<Rightarrow> string \<Rightarrow> string option \<Rightarrow> PermissionResult" where
  "checkActionPermission socketData userMember room action targetUserId =
     (let isOwner = (ownerId room = userId socketData);
          isModerator = (userId socketData |\<in>| moderatorIds room);
          isAdmin = (userRole socketData = ADMIN)
      in if action = ''message:send'' then
           (if \<not> allowMessaging (settings room) then deny ''Messaging is disabled in this room''
            else allow)
         else if action = ''file:upload'' then
           (if \<not> allowFileSharing (settings room) then deny ''File sharing is disabled in this room''
            else allow)
         else if action = ''voice:join'' then
           (if \<not> allowVoiceChat (settings room) then deny ''Voice chat is disabled in this room''
            else allow)
         else if action = ''video:join'' then
           (if \<not> allowVideoChat (settings room) then deny ''Video chat is disabled in this room''
            else allow)
         else if action \<in> set [''member:mute'', ''member:unmute'', ''member:warn'', ''member:kick''] then
           (if isAdmin \<or> isOwner \<or> isModerator then
              (if targetUserId = Some (userId socketData) \<and> action \<noteq> ''member:unmute''
               then deny ''Cannot perform this action on yourself''
               else if targetOutranks (userId socketData) targetUserId room
               then deny ''Cannot moderate users with higher privileges''
               else allow)
            else deny ''Moderator privileges required'')
         else if action \<in> set [''member:ban'', ''member:unban''] then
           (if isAdmin \<or> isOwner then
              (if targetOutranks (userId socketData) targetUserId room
               then deny ''Cannot ban users with higher privileges''
               else allow)
            else deny ''Owner privileges required'')
         else if action \<in> set [''member:promote'', ''member:demote''] then
           (if isAdmin \<or> isOwner then allow else deny ''Owner privileges required'')
         else if action \<in> set [''room:update_settings'', ''room:delete''] then
           (if isAdmin \<or> isOwner then allow else deny ''Owner privileges required'')
         else if action = ''room:invite'' then
           (if isPublic room \<or> isAdmin \<or> isOwner \<or> isModerator then allow
            else deny ''Invitation privileges required'')
         else if action = ''analytics:view'' then
           (if isAdmin \<or> isOwner \<or> isModerator then allow
            else deny ''Analytics access requires moderation privileges'')
         else allow)"

text \<open>\<^verbatim>\<open>hasRoomPermission\<close>. \<^verbatim>\<open>isUserBanned\<close> runs first and returns early when the ban holds;
  otherwise \<^verbatim>\<open>isUserMuted\<close> runs (the left operand of \<^verbatim>\<open>&&\<close>), then the member record is
  searched by \<^verbatim>\<open>userId\<close> in the values of the room's member map.\<close>

definition hasRoomPermission ::
  "RoomManager \<Rightarrow> RoomPermissionManager \<Rightarrow> Socket \<Rightarrow> RoomPermissionContext \<Rightarrow> int
     \<Rightarrow> PermissionResult \<times> RoomPermissionManager" where
  "hasRoomPermission rm pm socket context now =
     (case getRoomInfo rm (c_roomId context) of
        None \<Rightarrow> (deny ''Room not found'', pm)
      | Some room \<Rightarrow>
          if \<not> userId socket |\<in>| memberIds room
          then (deny ''Not a member of this room'', pm)
          else
            let (banned, pm1) = isUserBanned pm (c_roomId context) (userId socket) now
            in if banned then (deny ''User is banned from this room'', pm1)
               else
                 let (muted, pm2) = isUserMuted pm1 (c_roomId context) (userId socket) now
                 in if muted \<and> isMutedAction (c_action context)
                    then (deny ''User is muted in this room'', pm2)
                    else
                      (case List.find (\<lambda>m. m_userId m = userId socket)
                                      (getRoomMembers rm (c_roomId context)) of
                         None \<Rightarrow> (deny ''User not found in room members'', pm2)
                       | Some userMember \<Rightarrow>
                           (checkActionPermission socket userMember room (c_action context)
                              (c_targetUserId context), pm2)))"

subsection \<open>Applying a moderation action\<close>

text \<open>\<^verbatim>\<open>duration ? now + duration * 60000 : now + dflt * 60000\<close>: an absent or zero duration is
  falsy and selects the default.\<close>

definition durationOr :: "int option \<Rightarrow> int \<Rightarrow> int" where
  "durationOr duration dflt =
     (case duration of None \<Rightarrow> dflt | Some d \<Rightarrow> if d = 0 then dflt else d)"

text \<open>\<^verbatim>\<open>applyModerationAction\<close>. The \<^verbatim>\<open>default\<close> branch of its \<^verbatim>\<open>switch\<close> is excluded by the
  type of \<^verbatim>\<open>action.type\<close>; every other branch sets \<^verbatim>\<open>success = true\<close>, so the action is
  always recorded in the room's history.\<close>

definition applyModerationAction ::
  "Locale \<Rightarrow> RoomManager \<Rightarrow> RoomPermissionManager \<Rightarrow> string \<Rightarrow> ModerationRequest \<Rightarrow> int
     \<Rightarrow> RoomPermissionManager \<times> ModerationResult" where
  "applyModerationAction loc rm pm moderatorId action now =
     (let rid = a_roomId action; target = a_targetUserId action; duration = a_duration action
      in case getRoomInfo rm rid of
           None \<Rightarrow> (pm, \<lparr> r_success = False, r_message = ''Room not found'' \<rparr>)
         | Some room \<Rightarrow>
             let moderationAction =
                   \<lparr> a_type = a_type action, a_roomId = rid, a_targetUserId = target,
                     a_reason = a_reason action, a_duration = duration,
                     a_moderatorId = moderatorId, a_timestamp = now \<rparr>;
                 (pm1, message) =
                   (case a_type action of
                      Mute \<Rightarrow>
                        let muteExpiry = now + durationOr duration 30 * 60000
                        in (setUserMuted pm rid target muteExpiry,
                            ''User muted until '' @ toLocaleTimeString loc muteExpiry)
                    | Unmute \<Rightarrow> (removeUserMuted pm rid target, ''User unmuted'')
                    | Ban \<Rightarrow>
                        let banExpiry = now + durationOr duration (24 * 60) * 60000
                        in (setUserBanned pm rid target banExpiry,
                            ''User banned until '' @ toLocaleString loc banExpiry)
                    | Unban \<Rightarrow> (removeUserBanned pm rid target, ''User unbanned'')
                    | Warn \<Rightarrow>
                        let pmw = addUserWarning pm rid target;
                            warningCount = getUserWarnings pmw rid target;
                            message = ''User warned ('' @ showNat warningCount @ '' warnings)''
                        in if warningCount \<ge> 3
                           then (setUserMuted pmw rid target (now + 10 * 60000),
                                 message @ '' - Auto-muted for repeated warnings'')
                           else (pmw, message)
                    | Timeout \<Rightarrow>
                        let timeoutDuration = durationOr duration 5
                        in (setUserMuted pm rid target (now + timeoutDuration * 60000),
                            ''User timed out for '' @ showInt timeoutDuration @ '' minutes'')
                    | Kick \<Rightarrow> (pm, ''User kicked from room''))
             in (recordModerationAction pm1 moderationAction,
                 \<lparr> r_success = True, r_message = message \<rparr>))"

subsection \<open>Moderation status\<close>

record ModerationStatus =
  isMuted :: bool
  muteExpiry :: "int option"
  isBanned :: bool
  banExpiry :: "int option"
  warnings :: nat
  inCooldown :: bool

text \<open>\<^verbatim>\<open>getUserModerationStatus\<close> reads the two expiries before it calls \<^verbatim>\<open>isUserMuted\<close> and
  \<^verbatim>\<open>isUserBanned\<close>, so the reported \<^verbatim>\<open>muteExpiry\<close>/\<^verbatim>\<open>banExpiry\<close> are those found on entry.\<close>

definition getUserModerationStatus ::
  "RoomPermissionManager \<Rightarrow> string \<Rightarrow> string \<Rightarrow> int \<Rightarrow> ModerationStatus \<times> RoomPermissionManager" where
  "getUserModerationStatus pm rid uid now =
     (let muteExpiry0 = (case mutedUsers pm rid of None \<Rightarrow> None | Some m \<Rightarrow> m uid);
          banExpiry0 = (case bannedUsers pm rid of None \<Rightarrow> None | Some m \<Rightarrow> m uid);
          (muted, pm1) = isUserMuted pm rid uid now;
          (banned, pm2) = isUserBanned pm1 rid uid now
      in (\<lparr> isMuted = muted,
            muteExpiry = muteExpiry0,
            isBanned = banned,
            banExpiry = banExpiry0,
            warnings = getUserWarnings pm2 rid uid,
            inCooldown = isUserInCooldown pm2 rid uid 5 now \<rparr>,
          pm2))"

section \<open>Activity aggregator (roomAnalytics.ts)\<close>

record UserActivity =
  ua_userId :: string
  ua_roomId :: string
  messagesCount :: nat
  ua_lastActivity :: int
  sessionStart :: int
  totalTimeSpent :: real
  fileUploads :: nat
  reactionsGiven :: nat
  mentionsReceived :: nat
  isCurrentlyActive :: bool

record UserEngagement =
  e_veryActive :: nat
  e_active :: nat
  e_passive :: nat
  e_lurkers :: nat

record RoomMetrics =
  mx_roomId :: string
  mx_timestamp :: int
  activeUsers :: nat
  mx_totalMessages :: nat
  messagesPerHour :: nat
  averageMessageLength :: nat
  userEngagement :: UserEngagement
  mx_peakConcurrentUsers :: int
  averageSessionDuration :: real
  mx_fileUploads :: nat
  moderationActions :: nat

record RoomAnalyticsManager =
  metricsBuffer :: "string \<rightharpoonup> RoomMetrics list"
  userActivities :: "string \<rightharpoonup> (string \<times> UserActivity) list"

definition newRoomAnalyticsManager :: RoomAnalyticsManager where
  "newRoomAnalyticsManager = \<lparr> metricsBuffer = Map.empty, userActivities = Map.empty \<rparr>"

datatype ActivityType = A_message | A_join | A_leave | A_file_upload | A_reaction | A_mention

text \<open>\<^verbatim>\<open>recordUserActivity\<close>. Times spent are JavaScript numbers (minutes, fractional); they
  are reals here.\<close>

definition recordUserActivity ::
  "RoomAnalyticsManager \<Rightarrow> string \<Rightarrow> string \<Rightarrow> ActivityType \<Rightarrow> int \<Rightarrow> RoomAnalyticsManager" where
  "recordUserActivity am rid uid activityType now =
     (let roomActivities = (case userActivities am rid of None \<Rightarrow> [] | Some m \<Rightarrow> m);
          userActivity =
            (case map_of roomActivities uid of
               Some a \<Rightarrow> a
             | None \<Rightarrow> \<lparr> ua_userId = uid, ua_roomId = rid, messagesCount = 0,
                         ua_lastActivity = now, sessionStart = now, totalTimeSpent = 0,
                         fileUploads = 0, reactionsGiven = 0, mentionsReceived = 0,
                         isCurrentlyActive = True \<rparr>);
          updated =
            (case activityType of
               A_message \<Rightarrow> userActivity\<lparr> messagesCount := messagesCount userActivity + 1 \<rparr>
             | A_file_upload \<Rightarrow> userActivity\<lparr> fileUploads := fileUploads userActivity + 1 \<rparr>
             | A_reaction \<Rightarrow> userActivity\<lparr> reactionsGiven := reactionsGiven userActivity + 1 \<rparr>
             | A_mention \<Rightarrow> userActivity\<lparr> mentionsReceived := mentionsReceived userActivity + 1 \<rparr>
             | A_join \<Rightarrow> userActivity\<lparr> sessionStart := now, isCurrentlyActive := True \<rparr>
             | A_leave \<Rightarrow>
                 if isCurrentlyActive userActivity
                 then userActivity\<lparr>
                        totalTimeSpent := totalTimeSpent userActivity
                           + real_of_int (now - sessionStart userActivity) / 60000,
                        isCurrentlyActive := False \<rparr>
                 else userActivity)
      in am\<lparr> userActivities := (userActivities am)
                (rid \<mapsto> AList.update uid (updated\<lparr> ua_lastActivity := now \<rparr>) roomActivities) \<rparr>)"

text \<open>The body of the \<^verbatim>\<open>for\<close> loop of \<^verbatim>\<open>calculateUserEngagement\<close>, and the loop as a left
  fold over the map's values.\<close>

definition engagementStep :: "UserEngagement \<Rightarrow> UserActivity \<Rightarrow> UserEngagement" where
  "engagementStep engagement activity =
     (let hourlyMessages = messagesCount activity
      in if hourlyMessages > 10 then engagement\<lparr> e_veryActive := e_veryActive engagement + 1 \<rparr>
         else if hourlyMessages \<ge> 3 then engagement\<lparr> e_active := e_active engagement + 1 \<rparr>
         else if hourlyMessages \<ge> 1 then engagement\<lparr> e_passive := e_passive engagement + 1 \<rparr>
         else if isCurrentlyActive activity then engagement\<lparr> e_lurkers := e_lurkers engagement + 1 \<rparr>
         else engagement)"

definition calculateUserEngagement :: "(string \<times> UserActivity) list \<Rightarrow> UserEngagement" where
  "calculateUserEngagement roomActivities =
     foldl engagementStep \<lparr> e_veryActive = 0, e_active = 0, e_passive = 0, e_lurkers = 0 \<rparr>
       (map snd roomActivities)"

definition generateRoomMetrics ::
  "RoomManager \<Rightarrow> RoomAnalyticsManager \<Rightarrow> string \<Rightarrow> int
     \<Rightarrow> RoomAnalyticsManager \<times> RoomMetrics option" where
  "generateRoomMetrics rm am rid now =
     (case getRoomInfo rm rid of
        None \<Rightarrow> (am, None)
      | Some room \<Rightarrow>
          let roomActivities = (case userActivities am rid of None \<Rightarrow> [] | Some m \<Rightarrow> m);
              vals = map snd roomActivities;
              oneHourAgo = now - 3600000;
              recentActivities = filter (\<lambda>a. ua_lastActivity a > oneHourAgo) vals;
              activeSessions = filter isCurrentlyActive recentActivities;
              metrics =
                \<lparr> mx_roomId = rid,
                  mx_timestamp = now,
                  activeUsers = length (filter isCurrentlyActive vals),
                  mx_totalMessages = foldl (\<lambda>sum a. sum + messagesCount a) 0 vals,
                  messagesPerHour = foldl (\<lambda>sum a. sum + messagesCount a) 0 recentActivities,
                  averageMessageLength = 0,
                  userEngagement = calculateUserEngagement roomActivities,
                  mx_peakConcurrentUsers = peakConcurrentUsers (metadata room),
                  averageSessionDuration =
                    (if length activeSessions > 0
                     then foldl (\<lambda>sum a. sum + totalTimeSpent a) 0 activeSessions
                            / real (length activeSessions)
                     else 0),
                  mx_fileUploads = foldl (\<lambda>sum a. sum + fileUploads a) 0 vals,
                  moderationActions = 0 \<rparr>;
              metricsHistory = (case metricsBuffer am rid of None \<Rightarrow> [] | Some h \<Rightarrow> h) @ [metrics];
              dayAgo = now - 86400000
          in (am\<lparr> metricsBuffer := (metricsBuffer am)
                     (rid \<mapsto> filter (\<lambda>m. mx_timestamp m > dayAgo) metricsHistory) \<rparr>,
              Some metrics))"

text \<open>The number of actors tracked in a room: the size of the room's activity map.\<close>

definition trackedActors :: "RoomAnalyticsManager \<Rightarrow> string \<Rightarrow> nat" where
  "trackedActors am rid = (case userActivities am rid of None \<Rightarrow> 0 | Some m \<Rightarrow> length m)"

text \<open>The sum of the four tier counts of a snapshot.\<close>

definition engagementTotal :: "UserEngagement \<Rightarrow> nat" where
  "engagementTotal e = e_veryActive e + e_active e + e_passive e + e_lurkers e"

section \<open>Example inputs\<close>

text \<open>The inputs at which the claims are evaluated below. \<open>T\<close> is a teacher, \<open>S1\<close> to \<open>S4\<close> are
  students; \<open>exSocket u r\<close> is the socket of actor \<open>u\<close> with global role \<open>r\<close>, and \<open>exOptions\<close>
  are the default options of \<^verbatim>\<open>joinRoom\<close>.\<close>

definition exSocket :: "string \<Rightarrow> UserRole \<Rightarrow> Socket" where
  "exSocket u r = \<lparr> sock_id = ''sock-'' @ u, userId = u, userRole = r \<rparr>"

definition exOptions :: JoinOptions where
  "exOptions = \<lparr> o_role = None, o_validateAccess = None \<rparr>"

definition exLocale :: Locale where
  "exLocale = \<lparr> toLocaleTimeString = showInt, toLocaleString = showInt \<rparr>"

text \<open>A public room \<open>r\<close> with 50 places, owned by \<open>T\<close>, in which \<open>S1\<close> and \<open>S2\<close> have been
  promoted to moderator and \<open>S3\<close> is a plain member; all four have joined, so each has a
  member record.\<close>

definition exMetadata :: RoomMetadata where
  "exMetadata = \<lparr> totalMessages = 0, totalMembers = 1, activeMembers = 4, lastMessageAt = None,
                   peakConcurrentUsers = 4, tags = [''group''], isArchived = False,
                   archiveReason = None \<rparr>"

definition exRoom :: RoomInfo where
  "exRoom = \<lparr> roomId = ''r'', roomType = RT_group, name = ''ClassX'', description = None,
               classId = None, ownerId = ''T'',
               moderatorIds = {|''T'', ''S1'', ''S2''|},
               memberIds = {|''T'', ''S1'', ''S2'', ''S3''|},
               isPublic = True, maxMembers = 50, settings = getDefaultRoomSettings,
               metadata = exMetadata, createdAt = 0, lastActivity = 0 \<rparr>"

definition exMember :: "string \<Rightarrow> RoomRole \<Rightarrow> RoomMember" where
  "exMember u r = \<lparr> m_userId = u, m_socketId = ''sock-'' @ u, m_role = r, m_joinedAt = 0,
                     m_lastActivity = 0, m_permissions = getRoomPermissions STUDENT R_member,
                     m_isMuted = False, m_isBanned = False \<rparr>"

definition exManager :: RoomManager where
  "exManager = \<lparr> rooms = [''r'' \<mapsto> exRoom],
                  roomMembers = [''r'' \<mapsto> [(''T'', exMember ''T'' R_moderator),
                                           (''S1'', exMember ''S1'' R_moderator),
                                           (''S2'', exMember ''S2'' R_moderator),
                                           (''S3'', exMember ''S3'' R_member)]],
                  userRooms = [''T'' \<mapsto> {|''r''|}, ''S1'' \<mapsto> {|''r''|}, ''S2'' \<mapsto> {|''r''|},
                               ''S3'' \<mapsto> {|''r''|}],
                  broadcasts = [] \<rparr>"

text \<open>A room just created by \<open>T\<close> in an empty registry: \<^verbatim>\<open>createRoom\<close> has put \<open>T\<close> in the
  member set, and \<open>T\<close> has not joined yet, so the room's member map is empty.\<close>

definition exData :: CreateRoomData where
  "exData = \<lparr> d_name = ''ClassX'', d_description = None, d_roomType = RT_group,
               d_isPublic = Some True, d_maxMembers = Some 2, d_classId = None \<rparr>"

definition exCreated :: RoomManager where
  "exCreated = fst (createRoom newRoomManager ''T'' exData 1000 ''k3x'')"

text \<open>A private room with a single place, taken by its creator \<open>T\<close>; \<open>exPrivateRoom\<close> is the
  room that \<^verbatim>\<open>createRoom\<close> stores.\<close>

definition exPrivateData :: CreateRoomData where
  "exPrivateData = \<lparr> d_name = ''Staff'', d_description = None, d_roomType = RT_group,
                      d_isPublic = None, d_maxMembers = Some 1, d_classId = None \<rparr>"

definition exPrivate :: RoomManager where
  "exPrivate = fst (createRoom newRoomManager ''T'' exPrivateData 1000 ''k3x'')"

definition exPrivateRoom :: RoomInfo where
  "exPrivateRoom =
     \<lparr> roomId = ''group:1000_k3x'', roomType = RT_group, name = ''Staff'',
       description = None, classId = None, ownerId = ''T'', moderatorIds = {|''T''|},
       memberIds = {|''T''|}, isPublic = False, maxMembers = 1,
       settings = getDefaultRoomSettings,
       metadata = \<lparr> totalMessages = 0, totalMembers = 1, activeMembers = 0,
                     lastMessageAt = None, peakConcurrentUsers = 0, tags = [''group''],
                     isArchived = False, archiveReason = None \<rparr>,
       createdAt = 1000, lastActivity = 1000 \<rparr>"

text \<open>A room descriptor with an empty name, and one for a public room whose capacity is the
  fraction 1.5.\<close>

definition exBlankData :: CreateRoomData where
  "exBlankData = \<lparr> d_name = [], d_description = None, d_roomType = RT_group,
                    d_isPublic = None, d_maxMembers = None, d_classId = None \<rparr>"

definition exHalfData :: CreateRoomData where
  "exHalfData = \<lparr> d_name = ''Half'', d_description = None, d_roomType = RT_group,
                   d_isPublic = Some True, d_maxMembers = Some (3 / 2), d_classId = None \<rparr>"

definition exHalf :: RoomManager where
  "exHalf = fst (createRoom newRoomManager ''T'' exHalfData 1000 ''k3x'')"

text \<open>Moderation requests against the example room: a warning for \<open>S3\<close>, and a mute of one
  minute for \<open>S1\<close>.\<close>

definition exWarn :: ModerationRequest where
  "exWarn = \<lparr> a_type = Warn, a_roomId = ''r'', a_targetUserId = ''S3'', a_reason = None,
               a_duration = None \<rparr>"

definition exMute :: ModerationRequest where
  "exMute = \<lparr> a_type = Mute, a_roomId = ''r'', a_targetUserId = ''S1'', a_reason = None,
               a_duration = Some 1 \<rparr>"

text \<open>Activity in the example room. In \<open>exAnalytics\<close>, \<open>S3\<close> has joined at time 1000 and left
  at 2000 without a message. In \<open>exTracked\<close>, \<open>S1\<close> has sent 12 messages, \<open>S2\<close> is present
  without a message, and \<open>S3\<close> has left without a message.\<close>

definition exAnalytics :: RoomAnalyticsManager where
  "exAnalytics = recordUserActivity
                   (recordUserActivity newRoomAnalyticsManager ''r'' ''S3'' A_join 1000)
                   ''r'' ''S3'' A_leave 2000"

definition exActivity :: "string \<Rightarrow> nat \<Rightarrow> bool \<Rightarrow> UserActivity" where
  "exActivity u n a = \<lparr> ua_userId = u, ua_roomId = ''r'', messagesCount = n,
                         ua_lastActivity = 2000, sessionStart = 1000, totalTimeSpent = 0,
                         fileUploads = 0, reactionsGiven = 0, mentionsReceived = 0,
                         isCurrentlyActive = a \<rparr>"

definition exTracked :: RoomAnalyticsManager where
  "exTracked = \<lparr> metricsBuffer = Map.empty,
                  userActivities = [''r'' \<mapsto> [(''S1'', exActivity ''S1'' 12 True),
                                              (''S2'', exActivity ''S2'' 0 True),
                                              (''S3'', exActivity ''S3'' 0 False)]] \<rparr>"

section \<open>The permission decision, action by action\<close>

lemma check_mute_warn_kick:
  assumes "action = ''member:mute'' \<or> action = ''member:warn'' \<or> action = ''member:kick''"
  shows "checkActionPermission sock um room action tgt =
     (if userRole sock = ADMIN \<or> ownerId room = userId sock \<or> userId sock |\<in>| moderatorIds room
      then (if tgt = Some (userId sock) then deny ''Cannot perform this action on yourself''
            else if targetOutranks (userId sock) tgt room
            then deny ''Cannot moderate users with higher privileges''
            else allow)
      else deny ''Moderator privileges required'')"
  using assms by (elim disjE) (simp_all add: checkActionPermission_def)

lemma check_unmute:
  "checkActionPermission sock um room ''member:unmute'' tgt =
     (if userRole sock = ADMIN \<or> ownerId room = userId sock \<or> userId sock |\<in>| moderatorIds room
      then (if targetOutranks (userId sock) tgt room
            then deny ''Cannot moderate users with higher privileges''
            else allow)
      else deny ''Moderator privileges required'')"
  by (simp add: checkActionPermission_def)

lemma check_ban:
  "checkActionPermission sock um room ''member:ban'' tgt =
     (if userRole sock = ADMIN \<or> ownerId room = userId sock
      then (if targetOutranks (userId sock) tgt room
            then deny ''Cannot ban users with higher privileges''
            else allow)
      else deny ''Owner privileges required'')"
  by (simp add: checkActionPermission_def)

lemma allowed_deny [simp]: "\<not> allowed (deny r)"
  by (simp add: deny_def)

lemma allowed_allow [simp]: "allowed allow"
  by (simp add: allow_def)

text \<open>Every early exit of \<^verbatim>\<open>hasRoomPermission\<close> is a denial, so a denial by
  \<^verbatim>\<open>checkActionPermission\<close> for the room found is a denial of the whole decision.\<close>

lemma hasRoomPermission_denied:
  assumes "\<And>um room. getRoomInfo rm (c_roomId ctx) = Some room \<Longrightarrow>
             \<not> allowed (checkActionPermission sock um room (c_action ctx) (c_targetUserId ctx))"
  shows "\<not> allowed (fst (hasRoomPermission rm pm sock ctx now))"
  using assms
  by (auto simp: hasRoomPermission_def split: option.splits prod.splits)

text \<open>When the room exists, the actor is in its member set, is not banned, has a member
  record, and the action is not mute-sensitive, the decision is that of
  \<^verbatim>\<open>checkActionPermission\<close>.\<close>

lemma hasRoomPermission_check:
  assumes "getRoomInfo rm (c_roomId ctx) = Some room"
      and "userId sock |\<in>| memberIds room"
      and "\<not> fst (isUserBanned pm (c_roomId ctx) (userId sock) now)"
      and "\<not> isMutedAction (c_action ctx)"
      and "List.find (\<lambda>m. m_userId m = userId sock) (getRoomMembers rm (c_roomId ctx)) = Some um"
  shows "fst (hasRoomPermission rm pm sock ctx now)
           = checkActionPermission sock um room (c_action ctx) (c_targetUserId ctx)"
  using assms
  by (auto simp: hasRoomPermission_def split: option.splits prod.splits)

lemma isUserBanned_fresh [simp]: "fst (isUserBanned newRoomPermissionManager rid uid now) = False"
  by (simp add: isUserBanned_def newRoomPermissionManager_def)

lemma exManager_room [simp]: "getRoomInfo exManager ''r'' = Some exRoom"
  by (simp add: getRoomInfo_def exManager_def)

lemma exManager_members [simp]:
  "getRoomMembers exManager ''r'' = [exMember ''T'' R_moderator, exMember ''S1'' R_moderator,
                                     exMember ''S2'' R_moderator, exMember ''S3'' R_member]"
  by (simp add: getRoomMembers_def exManager_def)

lemma exRoom_fields [simp]:
  "ownerId exRoom = ''T''" "moderatorIds exRoom = {|''T'', ''S1'', ''S2''|}"
  "memberIds exRoom = {|''T'', ''S1'', ''S2'', ''S3''|}"
  by (simp_all add: exRoom_def)

lemma exSocket_fields [simp]:
  "userId (exSocket u r) = u" "userRole (exSocket u r) = r" "sock_id (exSocket u r) = ''sock-'' @ u"
  by (simp_all add: exSocket_def)

lemma exMember_userId [simp]: "m_userId (exMember u r) = u"
  by (simp add: exMember_def)

section \<open>Rank of the target (C1)\<close>

text \<open>C1, as stated, fails: a moderator who is neither the owner nor an admin may mute another
  moderator. In the example room, moderator \<open>S1\<close> asks to mute moderator \<open>S2\<close> and the decision
  is Allow.\<close>

theorem C1_moderator_mutes_moderator_counterexample:
  "userId (exSocket ''S1'' STUDENT) |\<in>| moderatorIds exRoom
   \<and> ownerId exRoom \<noteq> userId (exSocket ''S1'' STUDENT)
   \<and> userRole (exSocket ''S1'' STUDENT) \<noteq> ADMIN
   \<and> ''S2'' |\<in>| moderatorIds exRoom \<and> ''S2'' \<noteq> userId (exSocket ''S1'' STUDENT)
   \<and> allowed (fst (hasRoomPermission exManager newRoomPermissionManager (exSocket ''S1'' STUDENT)
         \<lparr> c_roomId = ''r'', c_action = ''member:mute'', c_targetUserId = Some ''S2'' \<rparr> 0))"
  by (simp add: hasRoomPermission_check [where um = "exMember ''S1'' R_moderator" and room = exRoom]
        isMutedAction_def check_mute_warn_kick targetOutranks_def isTargetHigherRank_def)

text \<open>C1, amended: for mute, ban and kick, an actor who is a moderator of the room but neither
  its owner nor a global admin is denied when the target is the room's owner, and is denied a
  ban whatever the target; a mute or kick of another moderator (who is not the owner) is
  allowed once the actor passes the membership checks, because a target of equal rank is not
  of higher rank.\<close>

theorem C1_moderator_rank:
  assumes "getRoomInfo rm rid = Some room"
      and "userId sock |\<in>| moderatorIds room"
      and "ownerId room \<noteq> userId sock"
      and "userRole sock \<noteq> ADMIN"
      and "ownerId room \<noteq> []"
  shows "(action \<in> {''member:mute'', ''member:ban'', ''member:kick''} \<longrightarrow>
            \<not> allowed (fst (hasRoomPermission rm pm sock
                 \<lparr> c_roomId = rid, c_action = action, c_targetUserId = Some (ownerId room) \<rparr> now)))
       \<and> \<not> allowed (fst (hasRoomPermission rm pm sock
                 \<lparr> c_roomId = rid, c_action = ''member:ban'', c_targetUserId = tgt \<rparr> now))
       \<and> (action \<in> {''member:mute'', ''member:kick''}
            \<and> t |\<in>| moderatorIds room \<and> t \<noteq> ownerId room \<and> t \<noteq> userId sock
            \<and> userId sock |\<in>| memberIds room
            \<and> \<not> fst (isUserBanned pm rid (userId sock) now)
            \<and> List.find (\<lambda>m. m_userId m = userId sock) (getRoomMembers rm rid) \<noteq> None \<longrightarrow>
            fst (hasRoomPermission rm pm sock
                 \<lparr> c_roomId = rid, c_action = action, c_targetUserId = Some t \<rparr> now) = allow)"
proof (intro conjI impI)
  assume act: "action \<in> {''member:mute'', ''member:ban'', ''member:kick''}"
  show "\<not> allowed (fst (hasRoomPermission rm pm sock
          \<lparr> c_roomId = rid, c_action = action, c_targetUserId = Some (ownerId room) \<rparr> now))"
  proof (rule hasRoomPermission_denied)
    fix um room'
    assume "getRoomInfo rm (c_roomId \<lparr> c_roomId = rid, c_action = action,
                                       c_targetUserId = Some (ownerId room) \<rparr>) = Some room'"
    with assms(1) have eq: "room' = room" by simp
    from act consider "action = ''member:ban''"
      | "action = ''member:mute'' \<or> action = ''member:warn'' \<or> action = ''member:kick''"
      by auto
    then show "\<not> allowed (checkActionPermission sock um room'
           (c_action \<lparr> c_roomId = rid, c_action = action, c_targetUserId = Some (ownerId room) \<rparr>)
           (c_targetUserId \<lparr> c_roomId = rid, c_action = action,
                             c_targetUserId = Some (ownerId room) \<rparr>))"
    proof cases
      case 1
      with assms eq show ?thesis by (simp add: check_ban)
    next
      case 2
      with assms eq show ?thesis
        by (simp add: check_mute_warn_kick targetOutranks_def isTargetHigherRank_def)
    qed
  qed
next
  show "\<not> allowed (fst (hasRoomPermission rm pm sock
          \<lparr> c_roomId = rid, c_action = ''member:ban'', c_targetUserId = tgt \<rparr> now))"
  proof (rule hasRoomPermission_denied)
    fix um room'
    assume "getRoomInfo rm (c_roomId \<lparr> c_roomId = rid, c_action = ''member:ban'',
                                       c_targetUserId = tgt \<rparr>) = Some room'"
    with assms(1) have "room' = room" by simp
    with assms show "\<not> allowed (checkActionPermission sock um room'
           (c_action \<lparr> c_roomId = rid, c_action = ''member:ban'', c_targetUserId = tgt \<rparr>)
           (c_targetUserId \<lparr> c_roomId = rid, c_action = ''member:ban'', c_targetUserId = tgt \<rparr>))"
      by (simp add: check_ban)
  qed
next
  assume h: "action \<in> {''member:mute'', ''member:kick''}
       \<and> t |\<in>| moderatorIds room \<and> t \<noteq> ownerId room \<and> t \<noteq> userId sock
       \<and> userId sock |\<in>| memberIds room
       \<and> \<not> fst (isUserBanned pm rid (userId sock) now)
       \<and> List.find (\<lambda>m. m_userId m = userId sock) (getRoomMembers rm rid) \<noteq> None"
  then obtain um where um: "List.find (\<lambda>m. m_userId m = userId sock) (getRoomMembers rm rid) = Some um"
    by auto
  from h have act: "action = ''member:mute'' \<or> action = ''member:warn'' \<or> action = ''member:kick''"
    by auto
  then have nm: "\<not> isMutedAction action"
    by (auto simp: isMutedAction_def)
  have "fst (hasRoomPermission rm pm sock
          \<lparr> c_roomId = rid, c_action = action, c_targetUserId = Some t \<rparr> now)
        = checkActionPermission sock um room action (Some t)"
    using hasRoomPermission_check [of rm "\<lparr> c_roomId = rid, c_action = action, c_targetUserId = Some t \<rparr>"
                                      room sock pm now um] assms(1) h um nm
    by simp
  also have "\<dots> = allow"
    using h assms(2) act by (auto simp: check_mute_warn_kick targetOutranks_def isTargetHigherRank_def)
  finally show "fst (hasRoomPermission rm pm sock
          \<lparr> c_roomId = rid, c_action = action, c_targetUserId = Some t \<rparr> now) = allow" .
qed

text \<open>The witness for C1: in the example room, moderator \<open>S1\<close> is denied a kick of the owner \<open>T\<close>
  and a ban of \<open>S3\<close>, and is allowed a kick of moderator \<open>S2\<close>.\<close>

theorem C1_moderator_rank_witness:
  "getRoomInfo exManager ''r'' = Some exRoom
   \<and> userId (exSocket ''S1'' STUDENT) |\<in>| moderatorIds exRoom
   \<and> ownerId exRoom \<noteq> userId (exSocket ''S1'' STUDENT)
   \<and> userRole (exSocket ''S1'' STUDENT) \<noteq> ADMIN
   \<and> ownerId exRoom \<noteq> []
   \<and> \<not> allowed (fst (hasRoomPermission exManager newRoomPermissionManager (exSocket ''S1'' STUDENT)
         \<lparr> c_roomId = ''r'', c_action = ''member:kick'', c_targetUserId = Some ''T'' \<rparr> 0))
   \<and> \<not> allowed (fst (hasRoomPermission exManager newRoomPermissionManager (exSocket ''S1'' STUDENT)
         \<lparr> c_roomId = ''r'', c_action = ''member:ban'', c_targetUserId = Some ''S3'' \<rparr> 0))
   \<and> fst (hasRoomPermission exManager newRoomPermissionManager (exSocket ''S1'' STUDENT)
         \<lparr> c_roomId = ''r'', c_action = ''member:kick'', c_targetUserId = Some ''S2'' \<rparr> 0) = allow"
  using C1_moderator_rank [of exManager "''r''" exRoom "exSocket ''S1'' STUDENT" "''member:kick''"
          newRoomPermissionManager 0 "Some ''S3''" "''S2''"]
  by simp

section \<open>Self-targeting (C8)\<close>

text \<open>C8, as stated, fails: the self-target check exempts \<^verbatim>\<open>member:unmute\<close>. In the example
  room, moderator \<open>S1\<close> asks to unmute \<open>S1\<close> and the decision is Allow.\<close>

theorem C8_self_unmute_counterexample:
  "c_targetUserId \<lparr> c_roomId = ''r'', c_action = ''member:unmute'', c_targetUserId = Some ''S1'' \<rparr>
     = Some (userId (exSocket ''S1'' STUDENT))
   \<and> allowed (fst (hasRoomPermission exManager newRoomPermissionManager (exSocket ''S1'' STUDENT)
         \<lparr> c_roomId = ''r'', c_action = ''member:unmute'', c_targetUserId = Some ''S1'' \<rparr> 0))"
  by (simp add: hasRoomPermission_check [where um = "exMember ''S1'' R_moderator" and room = exRoom]
        isMutedAction_def check_unmute targetOutranks_def isTargetHigherRank_def)

text \<open>C8, amended: for mute, warn and kick, a request whose target is the acting actor is
  denied, whoever the actor is; a self-unmute by an actor who is the room's owner, one of its
  moderators or a global admin, and who passes the membership checks, is allowed.\<close>

theorem C8_self_target:
  "(action \<in> {''member:mute'', ''member:warn'', ''member:kick''} \<longrightarrow>
      \<not> allowed (fst (hasRoomPermission rm pm sock
           \<lparr> c_roomId = rid, c_action = action, c_targetUserId = Some (userId sock) \<rparr> now)))
   \<and> (getRoomInfo rm rid = Some room
        \<and> (userRole sock = ADMIN \<or> ownerId room = userId sock \<or> userId sock |\<in>| moderatorIds room)
        \<and> userId sock |\<in>| memberIds room
        \<and> \<not> fst (isUserBanned pm rid (userId sock) now)
        \<and> List.find (\<lambda>m. m_userId m = userId sock) (getRoomMembers rm rid) \<noteq> None \<longrightarrow>
      fst (hasRoomPermission rm pm sock
           \<lparr> c_roomId = rid, c_action = ''member:unmute'', c_targetUserId = Some (userId sock) \<rparr> now)
        = allow)"
proof (intro conjI impI)
  assume act: "action \<in> {''member:mute'', ''member:warn'', ''member:kick''}"
  then have act': "action = ''member:mute'' \<or> action = ''member:warn'' \<or> action = ''member:kick''"
    by auto
  show "\<not> allowed (fst (hasRoomPermission rm pm sock
          \<lparr> c_roomId = rid, c_action = action, c_targetUserId = Some (userId sock) \<rparr> now))"
    by (rule hasRoomPermission_denied) (simp add: check_mute_warn_kick [OF act'])
next
  assume h: "getRoomInfo rm rid = Some room
        \<and> (userRole sock = ADMIN \<or> ownerId room = userId sock \<or> userId sock |\<in>| moderatorIds room)
        \<and> userId sock |\<in>| memberIds room
        \<and> \<not> fst (isUserBanned pm rid (userId sock) now)
        \<and> List.find (\<lambda>m. m_userId m = userId sock) (getRoomMembers rm rid) \<noteq> None"
  then obtain um where um: "List.find (\<lambda>m. m_userId m = userId sock) (getRoomMembers rm rid) = Some um"
    by auto
  have "fst (hasRoomPermission rm pm sock
          \<lparr> c_roomId = rid, c_action = ''member:unmute'', c_targetUserId = Some (userId sock) \<rparr> now)
        = checkActionPermission sock um room ''member:unmute'' (Some (userId sock))"
    using hasRoomPermission_check [of rm "\<lparr> c_roomId = rid, c_action = ''member:unmute'',
                                           c_targetUserId = Some (userId sock) \<rparr>"
                                      room sock pm now um] h um
    by (simp add: isMutedAction_def)
  also have "\<dots> = allow"
    using h by (auto simp: check_unmute targetOutranks_def isTargetHigherRank_def)
  finally show "fst (hasRoomPermission rm pm sock
          \<lparr> c_roomId = rid, c_action = ''member:unmute'', c_targetUserId = Some (userId sock) \<rparr> now)
        = allow" .
qed

text \<open>The witness for C8: in the example room, the owner \<open>T\<close> is denied a kick of \<open>T\<close> and
  allowed an unmute of \<open>T\<close>.\<close>

theorem C8_self_target_witness:
  "''member:kick'' \<in> {''member:mute'', ''member:warn'', ''member:kick''}
   \<and> \<not> allowed (fst (hasRoomPermission exManager newRoomPermissionManager (exSocket ''T'' TEACHER)
           \<lparr> c_roomId = ''r'', c_action = ''member:kick'', c_targetUserId = Some ''T'' \<rparr> 0))
   \<and> getRoomInfo exManager ''r'' = Some exRoom
   \<and> ownerId exRoom = userId (exSocket ''T'' TEACHER)
   \<and> userId (exSocket ''T'' TEACHER) |\<in>| memberIds exRoom
   \<and> \<not> fst (isUserBanned newRoomPermissionManager ''r'' (userId (exSocket ''T'' TEACHER)) 0)
   \<and> List.find (\<lambda>m. m_userId m = userId (exSocket ''T'' TEACHER)) (getRoomMembers exManager ''r'')
        \<noteq> None
   \<and> fst (hasRoomPermission exManager newRoomPermissionManager (exSocket ''T'' TEACHER)
           \<lparr> c_roomId = ''r'', c_action = ''member:unmute'', c_targetUserId = Some ''T'' \<rparr> 0) = allow"
  using C8_self_target [of "''member:kick''" exManager newRoomPermissionManager
          "exSocket ''T'' TEACHER" "''r''" 0 exRoom]
  by simp

section \<open>Unrecognised actions (C10)\<close>

text \<open>The action strings that have a \<^verbatim>\<open>case\<close> of their own in \<^verbatim>\<open>checkActionPermission\<close>.\<close>

lemma check_default:
  assumes "action \<notin> set [''message:send'', ''file:upload'', ''voice:join'', ''video:join'',
             ''member:mute'', ''member:unmute'', ''member:warn'', ''member:kick'',
             ''member:ban'', ''member:unban'', ''member:promote'', ''member:demote'',
             ''room:update_settings'', ''room:delete'', ''room:invite'', ''analytics:view'']"
  shows "checkActionPermission sock um room action tgt = allow"
  using assms by (simp add: checkActionPermission_def)

lemma showInt_1000 [simp]: "showInt 1000 = ''1000''"
  by code_simp

lemma exCreated_room:
  "getRoomInfo exCreated ''group:1000_k3x''
     = Some \<lparr> roomId = ''group:1000_k3x'', roomType = RT_group, name = ''ClassX'',
              description = None, classId = None, ownerId = ''T'', moderatorIds = {|''T''|},
              memberIds = {|''T''|}, isPublic = True, maxMembers = 2,
              settings = getDefaultRoomSettings,
              metadata = \<lparr> totalMessages = 0, totalMembers = 1, activeMembers = 0,
                            lastMessageAt = None, peakConcurrentUsers = 0, tags = [''group''],
                            isArchived = False, archiveReason = None \<rparr>,
              createdAt = 1000, lastActivity = 1000 \<rparr>"
  by (simp add: exCreated_def createRoom_def exData_def getRoomInfo_def newRoomManager_def Let_def)

lemma exCreated_members: "getRoomMembers exCreated ''group:1000_k3x'' = []"
  by (simp add: exCreated_def createRoom_def exData_def getRoomMembers_def newRoomManager_def Let_def)

text \<open>C10, as stated, fails: an actor in the room's member set who is not banned is still
  denied when the room's member map holds no record for the actor. \<open>T\<close>, in the member set of
  the room just created, asks for the unrecognised action \<^verbatim>\<open>class:join\<close> and is denied.\<close>

theorem C10_member_without_record_counterexample:
  "map_option memberIds (getRoomInfo exCreated ''group:1000_k3x'') = Some {|''T''|}
   \<and> userId (exSocket ''T'' TEACHER) |\<in>| {|''T''|}
   \<and> \<not> fst (isUserBanned newRoomPermissionManager ''group:1000_k3x'' (userId (exSocket ''T'' TEACHER)) 5000)
   \<and> fst (hasRoomPermission exCreated newRoomPermissionManager (exSocket ''T'' TEACHER)
         \<lparr> c_roomId = ''group:1000_k3x'', c_action = ''class:join'', c_targetUserId = None \<rparr> 5000)
       = \<lparr> allowed = False, reason = Some ''User not found in room members'' \<rparr>"
  by (simp add: exCreated_room exCreated_members hasRoomPermission_def isUserMuted_def
        newRoomPermissionManager_def isUserBanned_def deny_def isMutedAction_def)

text \<open>An actor who passes the membership and ban checks but has no record in the room's member
  map is refused, whatever the action, unless the mute check has refused first.\<close>

lemma hasRoomPermission_no_record:
  assumes "getRoomInfo rm (c_roomId ctx) = Some room"
      and "userId sock |\<in>| memberIds room"
      and "\<not> fst (isUserBanned pm (c_roomId ctx) (userId sock) now)"
      and "\<not> isMutedAction (c_action ctx)"
      and "List.find (\<lambda>m. m_userId m = userId sock) (getRoomMembers rm (c_roomId ctx)) = None"
  shows "fst (hasRoomPermission rm pm sock ctx now) = deny ''User not found in room members''"
  using assms
  by (auto simp: hasRoomPermission_def split: option.splits prod.splits)

text \<open>C10, amended: for every action string outside the explicitly handled cases, and every
  actor who is in the room's member set and is not banned, \<^verbatim>\<open>hasRoomPermission\<close> allows the
  actor when the room's member map holds a record for the actor, whatever the actor's role
  and mute state, and denies with the reason \<^verbatim>\<open>User not found in room members\<close> when it holds
  none.\<close>

theorem C10_default_allow:
  assumes "action \<notin> set [''message:send'', ''file:upload'', ''voice:join'', ''video:join'',
             ''member:mute'', ''member:unmute'', ''member:warn'', ''member:kick'',
             ''member:ban'', ''member:unban'', ''member:promote'', ''member:demote'',
             ''room:update_settings'', ''room:delete'', ''room:invite'', ''analytics:view'']"
      and "getRoomInfo rm rid = Some room"
      and "userId sock |\<in>| memberIds room"
      and "\<not> fst (isUserBanned pm rid (userId sock) now)"
  shows "(List.find (\<lambda>m. m_userId m = userId sock) (getRoomMembers rm rid) \<noteq> None \<longrightarrow>
            fst (hasRoomPermission rm pm sock
                   \<lparr> c_roomId = rid, c_action = action, c_targetUserId = tgt \<rparr> now) = allow)
       \<and> (List.find (\<lambda>m. m_userId m = userId sock) (getRoomMembers rm rid) = None \<longrightarrow>
            fst (hasRoomPermission rm pm sock
                   \<lparr> c_roomId = rid, c_action = action, c_targetUserId = tgt \<rparr> now)
              = deny ''User not found in room members'')"
proof (rule conjI; rule impI)
  assume "List.find (\<lambda>m. m_userId m = userId sock) (getRoomMembers rm rid) \<noteq> None"
  then obtain um
    where um: "List.find (\<lambda>m. m_userId m = userId sock) (getRoomMembers rm rid) = Some um"
    by auto
  from assms(1) have nm: "\<not> isMutedAction action"
    by (auto simp: isMutedAction_def)
  have "fst (hasRoomPermission rm pm sock
          \<lparr> c_roomId = rid, c_action = action, c_targetUserId = tgt \<rparr> now)
        = checkActionPermission sock um room action tgt"
    using hasRoomPermission_check [of rm "\<lparr> c_roomId = rid, c_action = action, c_targetUserId = tgt \<rparr>"
                                      room sock pm now um] assms(2-4) um nm
    by simp
  also have "\<dots> = allow"
    by (rule check_default [OF assms(1)])
  finally show "fst (hasRoomPermission rm pm sock
          \<lparr> c_roomId = rid, c_action = action, c_targetUserId = tgt \<rparr> now) = allow" .
next
  assume none: "List.find (\<lambda>m. m_userId m = userId sock) (getRoomMembers rm rid) = None"
  from assms(1) have nm: "\<not> isMutedAction action"
    by (auto simp: isMutedAction_def)
  show "fst (hasRoomPermission rm pm sock
          \<lparr> c_roomId = rid, c_action = action, c_targetUserId = tgt \<rparr> now)
        = deny ''User not found in room members''"
    using hasRoomPermission_no_record [of rm "\<lparr> c_roomId = rid, c_action = action,
                                                c_targetUserId = tgt \<rparr>" room sock pm now]
          assms(2-4) none nm
    by simp
qed

text \<open>The witness for C10: \<open>S3\<close>, a plain member of the example room who is muted until time
  9000, asks at time 5000 for the unrecognised action \<^verbatim>\<open>class:join\<close> and is allowed; \<open>T\<close>, in
  the member set of the room just created but without a member record, asks for it and is
  denied.\<close>

theorem C10_default_allow_witness:
  "''class:join'' \<notin> set [''message:send'', ''file:upload'', ''voice:join'', ''video:join'',
             ''member:mute'', ''member:unmute'', ''member:warn'', ''member:kick'',
             ''member:ban'', ''member:unban'', ''member:promote'', ''member:demote'',
             ''room:update_settings'', ''room:delete'', ''room:invite'', ''analytics:view'']
   \<and> getRoomInfo exManager ''r'' = Some exRoom
   \<and> userId (exSocket ''S3'' STUDENT) |\<in>| memberIds exRoom
   \<and> \<not> fst (isUserBanned (setUserMuted newRoomPermissionManager ''r'' ''S3'' 9000) ''r''
              (userId (exSocket ''S3'' STUDENT)) 5000)
   \<and> List.find (\<lambda>m. m_userId m = userId (exSocket ''S3'' STUDENT)) (getRoomMembers exManager ''r'')
        \<noteq> None
   \<and> fst (isUserMuted (setUserMuted newRoomPermissionManager ''r'' ''S3'' 9000) ''r'' ''S3'' 5000)
   \<and> fst (hasRoomPermission exManager (setUserMuted newRoomPermissionManager ''r'' ''S3'' 9000)
           (exSocket ''S3'' STUDENT)
           \<lparr> c_roomId = ''r'', c_action = ''class:join'', c_targetUserId = None \<rparr> 5000) = allow
   \<and> map_option memberIds (getRoomInfo exCreated ''group:1000_k3x'') = Some {|''T''|}
   \<and> \<not> fst (isUserBanned newRoomPermissionManager ''group:1000_k3x''
              (userId (exSocket ''T'' TEACHER)) 5000)
   \<and> List.find (\<lambda>m. m_userId m = userId (exSocket ''T'' TEACHER))
        (getRoomMembers exCreated ''group:1000_k3x'') = None
   \<and> fst (hasRoomPermission exCreated newRoomPermissionManager (exSocket ''T'' TEACHER)
           \<lparr> c_roomId = ''group:1000_k3x'', c_action = ''class:join'', c_targetUserId = None \<rparr> 5000)
       = deny ''User not found in room members''"
proof -
  have a: "''class:join'' \<notin> set [''message:send'', ''file:upload'', ''voice:join'', ''video:join'',
             ''member:mute'', ''member:unmute'', ''member:warn'', ''member:kick'',
             ''member:ban'', ''member:unban'', ''member:promote'', ''member:demote'',
             ''room:update_settings'', ''room:delete'', ''room:invite'', ''analytics:view'']"
    by simp
  have b3: "\<not> fst (isUserBanned (setUserMuted newRoomPermissionManager ''r'' ''S3'' 9000) ''r''
              (userId (exSocket ''S3'' STUDENT)) 5000)"
    by (simp add: setUserMuted_def newRoomPermissionManager_def isUserBanned_def)
  have m3: "userId (exSocket ''S3'' STUDENT) |\<in>| memberIds exRoom"
    by simp
  have f3: "List.find (\<lambda>m. m_userId m = userId (exSocket ''S3'' STUDENT))
              (getRoomMembers exManager ''r'') \<noteq> None"
    by simp
  have mu: "fst (isUserMuted (setUserMuted newRoomPermissionManager ''r'' ''S3'' 9000) ''r'' ''S3'' 5000)"
    by (simp add: setUserMuted_def newRoomPermissionManager_def isUserMuted_def)
  note w1 = C10_default_allow [OF a exManager_room m3 b3, of None, THEN conjunct1, rule_format, OF f3]
  obtain room where r: "getRoomInfo exCreated ''group:1000_k3x'' = Some room"
      and rm: "memberIds room = {|''T''|}"
    using exCreated_room by simp
  have mt: "userId (exSocket ''T'' TEACHER) |\<in>| memberIds room"
    by (simp add: rm)
  have bt: "\<not> fst (isUserBanned newRoomPermissionManager ''group:1000_k3x''
              (userId (exSocket ''T'' TEACHER)) 5000)"
    by simp
  have ft: "List.find (\<lambda>m. m_userId m = userId (exSocket ''T'' TEACHER))
              (getRoomMembers exCreated ''group:1000_k3x'') = None"
    by (simp add: exCreated_members)
  note w2 = C10_default_allow [OF a r mt bt, of None, THEN conjunct2, rule_format, OF ft]
  show ?thesis
    using a b3 m3 f3 mu w1 w2 r rm bt ft by simp
qed

section \<open>The moderation store\<close>

lemma getUserWarnings_addUserWarning:
  "getUserWarnings (addUserWarning pm rid uid) rid uid = getUserWarnings pm rid uid + 1"
  by (simp add: getUserWarnings_def addUserWarning_def Let_def split: option.splits)

lemma getUserWarnings_recordModerationAction [simp]:
  "getUserWarnings (recordModerationAction pm a) rid uid = getUserWarnings pm rid uid"
  by (simp add: getUserWarnings_def recordModerationAction_def Let_def)

lemma getUserWarnings_setUserMuted [simp]:
  "getUserWarnings (setUserMuted pm rid' uid' e) rid uid = getUserWarnings pm rid uid"
  by (simp add: getUserWarnings_def setUserMuted_def Let_def)

lemma mutedUsers_recordModerationAction [simp]:
  "mutedUsers (recordModerationAction pm a) = mutedUsers pm"
  by (simp add: recordModerationAction_def Let_def)

lemma mutedUsers_setUserMuted:
  "\<exists>m. mutedUsers (setUserMuted pm rid uid e) rid = Some m \<and> m uid = Some e"
  by (simp add: setUserMuted_def Let_def)

lemma isUserMuted_entry:
  assumes "mutedUsers pm rid = Some m" and "m uid = Some e"
  shows "isUserMuted pm rid uid now =
           (if now > e then (False, pm\<lparr> mutedUsers := (mutedUsers pm)(rid \<mapsto> m(uid := None)) \<rparr>)
            else (True, pm))"
  using assms by (simp add: isUserMuted_def)

lemma isMuted_status: "isMuted (fst (getUserModerationStatus pm rid uid now)) = fst (isUserMuted pm rid uid now)"
  by (simp add: getUserModerationStatus_def Let_def split: prod.splits)

lemma mutedUsers_isUserBanned [simp]: "mutedUsers (snd (isUserBanned pm rid uid now)) = mutedUsers pm"
  by (simp add: isUserBanned_def split: option.splits)

lemma mutedUsers_status:
  "mutedUsers (snd (getUserModerationStatus pm rid uid now)) = mutedUsers (snd (isUserMuted pm rid uid now))"
proof -
  obtain b pm1 where m: "isUserMuted pm rid uid now = (b, pm1)" by (cases "isUserMuted pm rid uid now")
  obtain c pm2 where n: "isUserBanned pm1 rid uid now = (c, pm2)" by (cases "isUserBanned pm1 rid uid now")
  have "mutedUsers pm2 = mutedUsers pm1"
    using mutedUsers_isUserBanned [of pm1 rid uid now] n by simp
  then show ?thesis
    by (simp add: getUserModerationStatus_def Let_def m n)
qed

text \<open>One \<^verbatim>\<open>warn\<close> against a target in an existing room: the counter grows by one, and from
  the third warning on the target is muted for ten minutes and the message says so.\<close>

lemma warn_step:
  assumes "getRoomInfo rm rid \<noteq> None"
      and "a_type w = Warn" and "a_roomId w = rid" and "a_targetUserId w = tgt"
      and "applyModerationAction loc rm pm moderator w now = (pm', r)"
  shows "getUserWarnings pm' rid tgt = getUserWarnings pm rid tgt + 1"
    and "r_success r"
    and "getUserWarnings pm rid tgt + 1 \<ge> 3 \<Longrightarrow>
           r_message r = ''User warned ('' @ showNat (getUserWarnings pm rid tgt + 1)
                           @ '' warnings) - Auto-muted for repeated warnings''
           \<and> (\<exists>m. mutedUsers pm' rid = Some m \<and> m tgt = Some (now + 600000))"
  using assms mutedUsers_setUserMuted [of "addUserWarning pm rid tgt" rid tgt "now + 600000"]
  by (auto simp: applyModerationAction_def Let_def getUserWarnings_addUserWarning
           split: option.splits if_splits)

section \<open>Warning escalation (C6)\<close>

text \<open>C6: three \<^verbatim>\<open>warn\<close> actions against the same target in the same room, applied at any
  three times by any moderators while the room exists, leave the target muted. The third
  outcome is a success whose message reports the automatic mute, the mute entry expires ten
  minutes after the third warning, and the target counts as muted at every time up to then.\<close>

theorem C6_three_warnings_mute:
  assumes "getRoomInfo rm1 rid \<noteq> None" and "getRoomInfo rm2 rid \<noteq> None"
      and "getRoomInfo rm3 rid \<noteq> None"
      and "a_type w1 = Warn \<and> a_roomId w1 = rid \<and> a_targetUserId w1 = tgt"
      and "a_type w2 = Warn \<and> a_roomId w2 = rid \<and> a_targetUserId w2 = tgt"
      and "a_type w3 = Warn \<and> a_roomId w3 = rid \<and> a_targetUserId w3 = tgt"
      and "applyModerationAction loc rm1 pm m1 w1 t1 = (pm1, r1)"
      and "applyModerationAction loc rm2 pm1 m2 w2 t2 = (pm2, r2)"
      and "applyModerationAction loc rm3 pm2 m3 w3 t3 = (pm3, r3)"
  shows "r_success r3
       \<and> r_message r3 = ''User warned ('' @ showNat (getUserWarnings pm rid tgt + 3)
                          @ '' warnings) - Auto-muted for repeated warnings''
       \<and> getUserWarnings pm3 rid tgt = getUserWarnings pm rid tgt + 3
       \<and> (\<exists>m. mutedUsers pm3 rid = Some m \<and> m tgt = Some (t3 + 10 * 60000))
       \<and> (\<forall>t. t \<le> t3 + 10 * 60000 \<longrightarrow> isMuted (fst (getUserModerationStatus pm3 rid tgt t)))"
proof -
  have c1: "getUserWarnings pm1 rid tgt = getUserWarnings pm rid tgt + 1"
    using warn_step(1) [OF assms(1) _ _ _ assms(7)] assms(4) by simp
  have c2: "getUserWarnings pm2 rid tgt = getUserWarnings pm rid tgt + 2"
    using warn_step(1) [OF assms(2) _ _ _ assms(8)] assms(5) c1 by simp
  have c3: "getUserWarnings pm3 rid tgt = getUserWarnings pm rid tgt + 3"
    using warn_step(1) [OF assms(3) _ _ _ assms(9)] assms(6) c2 by simp
  have s3: "r_success r3"
    using warn_step(2) [OF assms(3) _ _ _ assms(9)] assms(6) by simp
  have ge: "getUserWarnings pm2 rid tgt + 1 \<ge> 3"
    using c2 by simp
  have esc: "r_message r3 = ''User warned ('' @ showNat (getUserWarnings pm2 rid tgt + 1)
                           @ '' warnings) - Auto-muted for repeated warnings''
           \<and> (\<exists>m. mutedUsers pm3 rid = Some m \<and> m tgt = Some (t3 + 600000))"
    using warn_step(3) [OF assms(3) _ _ _ assms(9) ge] assms(6) by simp
  then obtain m where m: "mutedUsers pm3 rid = Some m" "m tgt = Some (t3 + 600000)"
    by blast
  have muted: "\<forall>t. t \<le> t3 + 10 * 60000 \<longrightarrow> isMuted (fst (getUserModerationStatus pm3 rid tgt t))"
    by (simp add: isMuted_status isUserMuted_entry [OF m])
  have n: "getUserWarnings pm2 rid tgt + 1 = getUserWarnings pm rid tgt + 3"
    using c2 by simp
  show ?thesis
    using s3 esc c3 m muted unfolding n by simp
qed

text \<open>The witness for C6: \<open>S3\<close> is warned in the example room at times 1000, 2000 and 9000000.\<close>

theorem C6_three_warnings_mute_witness:
  "getRoomInfo exManager ''r'' \<noteq> None
   \<and> a_type exWarn = Warn \<and> a_roomId exWarn = ''r'' \<and> a_targetUserId exWarn = ''S3''
   \<and> r_message (snd (applyModerationAction exLocale exManager
        (fst (applyModerationAction exLocale exManager
           (fst (applyModerationAction exLocale exManager newRoomPermissionManager ''T'' exWarn 1000))
           ''S1'' exWarn 2000))
        ''T'' exWarn 9000000))
       = ''User warned (3 warnings) - Auto-muted for repeated warnings''
   \<and> isMuted (fst (getUserModerationStatus
        (fst (applyModerationAction exLocale exManager
           (fst (applyModerationAction exLocale exManager
              (fst (applyModerationAction exLocale exManager newRoomPermissionManager ''T'' exWarn 1000))
              ''S1'' exWarn 2000))
           ''T'' exWarn 9000000))
        ''r'' ''S3'' 9600000))"
proof -
  have w: "a_type exWarn = Warn \<and> a_roomId exWarn = ''r'' \<and> a_targetUserId exWarn = ''S3''"
    by (simp add: exWarn_def)
  have r: "getRoomInfo exManager ''r'' \<noteq> None"
    by simp
  have z: "getUserWarnings newRoomPermissionManager ''r'' ''S3'' = 0"
    by (simp add: getUserWarnings_def newRoomPermissionManager_def)
  have three: "showNat 3 = ''3''"
    by code_simp
  show ?thesis
    using C6_three_warnings_mute [OF r r r w w w surjective_pairing surjective_pairing
            surjective_pairing, of exLocale newRoomPermissionManager "''T''" 1000 "''S1''" 2000
            "''T''" 9000000] w r z three
    by simp
qed

section \<open>Lazy expiry of a mute (C7)\<close>

text \<open>C7: after a mute with a duration of one minute applied at time \<open>t0\<close> in an existing room,
  a status query at any time \<open>t\<close> later than \<open>t0 + 60000\<close> reports \<^verbatim>\<open>isMuted = false\<close> and
  leaves the target without a mute entry; nothing but the query itself has touched the store.
  Up to \<open>t0 + 60000\<close> the status is muted.\<close>

theorem C7_lazy_expiry:
  assumes "getRoomInfo rm rid \<noteq> None"
      and "applyModerationAction loc rm pm moderator
             \<lparr> a_type = Mute, a_roomId = rid, a_targetUserId = tgt, a_reason = rsn,
               a_duration = Some 1 \<rparr> t0 = (pm1, r)"
      and "t > t0 + 60000"
      and "getUserModerationStatus pm1 rid tgt t = (status, pm2)"
  shows "r_success r
       \<and> \<not> isMuted status
       \<and> (\<exists>m. mutedUsers pm2 rid = Some m \<and> m tgt = None)
       \<and> (\<forall>t'. t' \<le> t0 + 60000 \<longrightarrow> isMuted (fst (getUserModerationStatus pm1 rid tgt t')))"
proof -
  have r: "r_success r"
    using assms(1,2) by (auto simp: applyModerationAction_def Let_def split: option.splits)
  have "mutedUsers pm1 = mutedUsers (setUserMuted pm rid tgt (t0 + 60000))"
    using assms(1,2)
    by (auto simp: applyModerationAction_def Let_def durationOr_def split: option.splits)
  then obtain m where m: "mutedUsers pm1 rid = Some m" "m tgt = Some (t0 + 60000)"
    using mutedUsers_setUserMuted [of pm rid tgt "t0 + 60000"] by auto
  have a: "\<not> isMuted status"
    using isMuted_status [of pm1 rid tgt t] assms(3,4) by (simp add: isUserMuted_entry [OF m])
  have "mutedUsers pm2 = mutedUsers (snd (isUserMuted pm1 rid tgt t))"
    using mutedUsers_status [of pm1 rid tgt t] assms(4) by simp
  then have b: "\<exists>m. mutedUsers pm2 rid = Some m \<and> m tgt = None"
    using assms(3) by (simp add: isUserMuted_entry [OF m])
  have c: "\<forall>t'. t' \<le> t0 + 60000 \<longrightarrow> isMuted (fst (getUserModerationStatus pm1 rid tgt t'))"
    by (simp add: isMuted_status isUserMuted_entry [OF m])
  show ?thesis using r a b c by simp
qed

text \<open>The witness for C7: \<open>T\<close> mutes \<open>S1\<close> for one minute at time 1000; the status is queried at
  62000, 61 seconds later.\<close>

theorem C7_lazy_expiry_witness:
  "getRoomInfo exManager ''r'' \<noteq> None \<and> (62000 :: int) > 1000 + 60000
   \<and> \<not> isMuted (fst (getUserModerationStatus
          (fst (applyModerationAction exLocale exManager newRoomPermissionManager ''T'' exMute 1000))
          ''r'' ''S1'' 62000))
   \<and> isMuted (fst (getUserModerationStatus
          (fst (applyModerationAction exLocale exManager newRoomPermissionManager ''T'' exMute 1000))
          ''r'' ''S1'' 61000))"
proof -
  have r: "getRoomInfo exManager ''r'' \<noteq> None"
    by simp
  have t: "(62000 :: int) > 1000 + 60000"
    by simp
  have e: "applyModerationAction exLocale exManager newRoomPermissionManager ''T''
             \<lparr> a_type = Mute, a_roomId = ''r'', a_targetUserId = ''S1'', a_reason = None,
               a_duration = Some 1 \<rparr> 1000
           = (fst (applyModerationAction exLocale exManager newRoomPermissionManager ''T'' exMute 1000),
              snd (applyModerationAction exLocale exManager newRoomPermissionManager ''T'' exMute 1000))"
    by (simp add: exMute_def)
  show ?thesis
    using C7_lazy_expiry [OF r e t surjective_pairing] r
    by simp
qed

section \<open>The room registry\<close>

text \<open>The outcomes of \<^verbatim>\<open>joinRoom\<close>, one equation for each exit.\<close>

lemma joinRoom_not_found:
  assumes "rooms st rid = None"
  shows "joinRoom st sock rid opts now
           = (st, \<lparr> j_success = False, j_message = ''Room not found'', j_roomInfo = None \<rparr>)"
  using assms by (simp add: joinRoom_def)

lemma joinRoom_access_denied:
  assumes "rooms st rid = Some room"
      and "o_validateAccess opts \<noteq> Some False" and "\<not> canUserJoinRoom (userId sock) room"
  shows "joinRoom st sock rid opts now
           = (st, \<lparr> j_success = False, j_message = ''Access denied to this room'',
                    j_roomInfo = None \<rparr>)"
proof -
  have "(case o_validateAccess opts of None \<Rightarrow> True | Some b \<Rightarrow> b)"
    using assms(2) by (cases "o_validateAccess opts") auto
  then show ?thesis
    using assms(1,3) by (simp add: joinRoom_def Let_def)
qed

lemma joinRoom_at_capacity:
  assumes "rooms st rid = Some room"
      and "o_validateAccess opts = Some False \<or> canUserJoinRoom (userId sock) room"
      and "real (fcard (memberIds room)) \<ge> maxMembers room"
      and "\<not> userId sock |\<in>| moderatorIds room"
  shows "joinRoom st sock rid opts now
           = (st, \<lparr> j_success = False, j_message = ''Room is at maximum capacity'',
                    j_roomInfo = None \<rparr>)"
proof -
  have "\<not> ((case o_validateAccess opts of None \<Rightarrow> True | Some b \<Rightarrow> b)
           \<and> \<not> canUserJoinRoom (userId sock) room)"
    using assms(2) by (auto split: option.splits)
  then show ?thesis
    using assms(1,3,4) by (simp add: joinRoom_def Let_def)
qed

lemma joinRoom_admitted:
  assumes "rooms st rid = Some room"
      and "o_validateAccess opts = Some False \<or> canUserJoinRoom (userId sock) room"
      and "real (fcard (memberIds room)) < maxMembers room \<or> userId sock |\<in>| moderatorIds room"
  shows "\<exists>room' rec ev.
           joinRoom st sock rid opts now
             = (st\<lparr> rooms := (rooms st)(rid \<mapsto> room'),
                    roomMembers := (roomMembers st)
                      (rid \<mapsto> AList.update (userId sock) rec
                                (case roomMembers st rid of None \<Rightarrow> [] | Some m \<Rightarrow> m)),
                    userRooms := (userRooms st)
                      (userId sock \<mapsto> finsert rid
                         (case userRooms st (userId sock) of None \<Rightarrow> {||} | Some s \<Rightarrow> s)),
                    broadcasts := broadcasts st @ [ev] \<rparr>,
                \<lparr> j_success = True, j_message = ''Successfully joined room'',
                  j_roomInfo = Some room' \<rparr>)
         \<and> memberIds room' = finsert (userId sock) (memberIds room)
         \<and> moderatorIds room' = moderatorIds room \<and> ownerId room' = ownerId room
         \<and> isPublic room' = isPublic room \<and> maxMembers room' = maxMembers room
         \<and> name room' = name room
         \<and> b_event ev = ''user:joined_class'' \<and> b_userId ev = userId sock
         \<and> b_roomId ev = rid \<and> b_exclude ev = Some (sock_id sock)"
proof -
  have g1: "\<not> ((case o_validateAccess opts of None \<Rightarrow> True | Some b \<Rightarrow> b)
              \<and> \<not> canUserJoinRoom (userId sock) room)"
    using assms(2) by (auto split: option.splits)
  have g2: "\<not> (real (fcard (memberIds room)) \<ge> maxMembers room
              \<and> \<not> userId sock |\<in>| moderatorIds room)"
    using assms(3) by auto
  show ?thesis
    unfolding joinRoom_def Let_def
    apply (simp only: assms(1) option.case g1 g2 if_False)
    apply (intro exI conjI)
             apply (rule refl)
            apply simp_all
    done
qed

text \<open>A successful \<^verbatim>\<open>joinRoom\<close>: what it did to the room, the member map and the event log.\<close>

lemma joinRoom_success:
  assumes "joinRoom st sock rid opts now = (st', res)" and "j_success res"
  shows "\<exists>room room' rec ev.
           rooms st rid = Some room \<and> rooms st' rid = Some room'
         \<and> memberIds room' = finsert (userId sock) (memberIds room)
         \<and> moderatorIds room' = moderatorIds room \<and> ownerId room' = ownerId room
         \<and> isPublic room' = isPublic room \<and> maxMembers room' = maxMembers room
         \<and> roomMembers st' rid
             = Some (AList.update (userId sock) rec
                       (case roomMembers st rid of None \<Rightarrow> [] | Some m \<Rightarrow> m))
         \<and> broadcasts st' = broadcasts st @ [ev]
         \<and> b_event ev = ''user:joined_class'' \<and> b_userId ev = userId sock
         \<and> b_roomId ev = rid \<and> b_exclude ev = Some (sock_id sock)"
proof (cases "rooms st rid")
  case None
  from joinRoom_not_found [OF None, of sock opts now] assms show ?thesis by simp
next
  case (Some room)
  show ?thesis
  proof (cases "o_validateAccess opts = Some False \<or> canUserJoinRoom (userId sock) room")
    case False
    with joinRoom_access_denied [OF Some, of opts sock now] assms show ?thesis by simp
  next
    case acc: True
    show ?thesis
    proof (cases "real (fcard (memberIds room)) < maxMembers room
                  \<or> userId sock |\<in>| moderatorIds room")
      case False
      with joinRoom_at_capacity [OF Some acc, of now] assms show ?thesis by simp
    next
      case True
      from joinRoom_admitted [OF Some acc True, of now] obtain room' rec ev where
        j: "joinRoom st sock rid opts now
             = (st\<lparr> rooms := (rooms st)(rid \<mapsto> room'),
                    roomMembers := (roomMembers st)
                      (rid \<mapsto> AList.update (userId sock) rec
                                (case roomMembers st rid of None \<Rightarrow> [] | Some m \<Rightarrow> m)),
                    userRooms := (userRooms st)
                      (userId sock \<mapsto> finsert rid
                         (case userRooms st (userId sock) of None \<Rightarrow> {||} | Some s \<Rightarrow> s)),
                    broadcasts := broadcasts st @ [ev] \<rparr>,
                \<lparr> j_success = True, j_message = ''Successfully joined room'',
                  j_roomInfo = Some room' \<rparr>)"
        and r: "memberIds room' = finsert (userId sock) (memberIds room)"
           "moderatorIds room' = moderatorIds room" "ownerId room' = ownerId room"
           "isPublic room' = isPublic room" "maxMembers room' = maxMembers room"
        and e: "b_event ev = ''user:joined_class''" "b_userId ev = userId sock"
           "b_roomId ev = rid" "b_exclude ev = Some (sock_id sock)"
        by blast
      from j assms(1) have st': "st' = st\<lparr> rooms := (rooms st)(rid \<mapsto> room'),
                    roomMembers := (roomMembers st)
                      (rid \<mapsto> AList.update (userId sock) rec
                                (case roomMembers st rid of None \<Rightarrow> [] | Some m \<Rightarrow> m)),
                    userRooms := (userRooms st)
                      (userId sock \<mapsto> finsert rid
                         (case userRooms st (userId sock) of None \<Rightarrow> {||} | Some s \<Rightarrow> s)),
                    broadcasts := broadcasts st @ [ev] \<rparr>"
        by simp
      show ?thesis
        apply (rule exI [of _ room], rule exI [of _ room'], rule exI [of _ rec], rule exI [of _ ev])
        apply (simp add: Some st' r e)
        done
    qed
  qed
qed

text \<open>A failed \<^verbatim>\<open>joinRoom\<close> leaves the registry as it was.\<close>

lemma joinRoom_failure:
  assumes "joinRoom st sock rid opts now = (st', res)" and "\<not> j_success res"
  shows "st' = st"
proof (cases "rooms st rid")
  case None
  from joinRoom_not_found [OF None, of sock opts now] assms show ?thesis by simp
next
  case (Some room)
  show ?thesis
  proof (cases "o_validateAccess opts = Some False \<or> canUserJoinRoom (userId sock) room")
    case False
    with joinRoom_access_denied [OF Some, of opts sock now] assms show ?thesis by simp
  next
    case acc: True
    show ?thesis
    proof (cases "real (fcard (memberIds room)) < maxMembers room
                  \<or> userId sock |\<in>| moderatorIds room")
      case False
      with joinRoom_at_capacity [OF Some acc, of now] assms show ?thesis by simp
    next
      case True
      from joinRoom_admitted [OF Some acc True, of now] assms show ?thesis by auto
    qed
  qed
qed

lemma joinRoom_admitted_success:
  assumes "rooms st rid = Some room"
      and "o_validateAccess opts = Some False \<or> canUserJoinRoom (userId sock) room"
      and "real (fcard (memberIds room)) < maxMembers room \<or> userId sock |\<in>| moderatorIds room"
  shows "j_success (snd (joinRoom st sock rid opts now))"
  using joinRoom_admitted [OF assms, of now] by auto


section \<open>Joining twice (C2)\<close>

lemma exManager_rooms [simp]: "rooms exManager ''r'' = Some exRoom"
  by (simp add: exManager_def)

lemma exRoom_capacity [simp]: "isPublic exRoom" "maxMembers exRoom = 50"
  by (simp_all add: exRoom_def)

lemma exJoin_first:
  "j_success (snd (joinRoom exManager (exSocket ''S4'' STUDENT) ''r'' exOptions 1000))"
  by (rule joinRoom_admitted_success [of _ _ exRoom]) (simp_all add: canUserJoinRoom_def fcard_finsert_if fcard_fempty)





lemma joinRoom_other_rooms:
  assumes "rid' \<noteq> rid"
  shows "rooms (fst (joinRoom st sock rid opts now)) rid' = rooms st rid'"
proof (cases "j_success (snd (joinRoom st sock rid opts now))")
  case False
  from joinRoom_failure [OF surjective_pairing False] show ?thesis by simp
next
  case True
  then obtain room where room: "rooms st rid = Some room"
    using joinRoom_success [OF surjective_pairing True] by blast
  have acc: "o_validateAccess opts = Some False \<or> canUserJoinRoom (userId sock) room"
  proof (rule ccontr)
    assume "\<not> (o_validateAccess opts = Some False \<or> canUserJoinRoom (userId sock) room)"
    then have "joinRoom st sock rid opts now
           = (st, \<lparr> j_success = False, j_message = ''Access denied to this room'',
                    j_roomInfo = None \<rparr>)"
      using joinRoom_access_denied [OF room, of opts sock now] by simp
    with True show False by simp
  qed
  have cap: "real (fcard (memberIds room)) < maxMembers room \<or> userId sock |\<in>| moderatorIds room"
  proof (rule ccontr)
    assume "\<not> (real (fcard (memberIds room)) < maxMembers room
                \<or> userId sock |\<in>| moderatorIds room)"
    then have "joinRoom st sock rid opts now
           = (st, \<lparr> j_success = False, j_message = ''Room is at maximum capacity'',
                    j_roomInfo = None \<rparr>)"
      using joinRoom_at_capacity [OF room acc, of now] by simp
    with True show False by simp
  qed
  from joinRoom_admitted [OF room acc cap, of now] assms show ?thesis
    by auto
qed

text \<open>At capacity and outside the moderator set, \<^verbatim>\<open>joinRoom\<close> fails before it changes
  anything.\<close>

lemma joinRoom_full_fails:
  assumes "rooms st rid = Some room"
      and "real (fcard (memberIds room)) \<ge> maxMembers room"
      and "\<not> userId sock |\<in>| moderatorIds room"
  shows "joinRoom st sock rid opts now
           = (st, \<lparr> j_success = False,
                    j_message = (if o_validateAccess opts = Some False
                                    \<or> canUserJoinRoom (userId sock) room
                                 then ''Room is at maximum capacity''
                                 else ''Access denied to this room''),
                    j_roomInfo = None \<rparr>)"
proof (cases "o_validateAccess opts = Some False \<or> canUserJoinRoom (userId sock) room")
  case True
  with joinRoom_at_capacity [OF assms(1) True assms(2,3), of now] show ?thesis by simp
next
  case False
  with joinRoom_access_denied [OF assms(1), of opts sock now] show ?thesis by simp
qed

lemma createRoom_result:
  "\<exists>room. snd (createRoom st creatorId roomData now rnd) = Some room
         \<and> rooms (fst (createRoom st creatorId roomData now rnd)) = (rooms st)(roomId room \<mapsto> room)
         \<and> roomMembers (fst (createRoom st creatorId roomData now rnd))
              = (roomMembers st)(roomId room \<mapsto> [])
         \<and> roomId room = roomTypeStr (d_roomType roomData) @ '':'' @ showInt now @ ''_'' @ rnd
         \<and> name room = d_name roomData
         \<and> ownerId room = creatorId
         \<and> memberIds room = {|creatorId|}
         \<and> moderatorIds room = {|creatorId|}"
  by (simp add: createRoom_def Let_def)

lemma leaveRoom_result:
  assumes "rooms st rid = Some room"
  shows "\<exists>room'. rooms (fst (leaveRoom st sock rid now)) rid = Some room'
               \<and> ownerId room' = ownerId room
               \<and> memberIds room' = memberIds room |-| {|userId sock|}
               \<and> l_success (snd (leaveRoom st sock rid now))"
  using assms by (simp add: leaveRoom_def Let_def)

section \<open>Capacity (C3)\<close>

lemma exPrivate_room: "rooms exPrivate ''group:1000_k3x'' = Some exPrivateRoom"
  by (simp add: exPrivate_def createRoom_def exPrivateData_def newRoomManager_def Let_def
        exPrivateRoom_def)

text \<open>C3, as stated, fails: the access check runs before the capacity check. The private room
  is at capacity and \<open>S1\<close>, a student who is neither its owner nor a moderator, asks to join with
  the default options: the failure is \<^verbatim>\<open>Access denied to this room\<close>, not the capacity
  failure.\<close>

theorem C3_access_check_first_counterexample:
  "getRoomInfo exPrivate ''group:1000_k3x'' = Some exPrivateRoom
   \<and> real (fcard (memberIds exPrivateRoom)) \<ge> maxMembers exPrivateRoom
   \<and> ownerId exPrivateRoom \<noteq> userId (exSocket ''S1'' STUDENT)
   \<and> \<not> userId (exSocket ''S1'' STUDENT) |\<in>| moderatorIds exPrivateRoom
   \<and> userRole (exSocket ''S1'' STUDENT) \<noteq> ADMIN
   \<and> joinRoom exPrivate (exSocket ''S1'' STUDENT) ''group:1000_k3x'' exOptions 2000
       = (exPrivate, \<lparr> j_success = False, j_message = ''Access denied to this room'',
                        j_roomInfo = None \<rparr>)
   \<and> j_message (snd (joinRoom exPrivate (exSocket ''S1'' STUDENT) ''group:1000_k3x'' exOptions 2000))
       \<noteq> ''Room is at maximum capacity''"
proof -
  have a: "joinRoom exPrivate (exSocket ''S1'' STUDENT) ''group:1000_k3x'' exOptions 2000
       = (exPrivate, \<lparr> j_success = False, j_message = ''Access denied to this room'',
                        j_roomInfo = None \<rparr>)"
    by (rule joinRoom_access_denied [OF exPrivate_room])
       (simp_all add: exOptions_def canUserJoinRoom_def exPrivateRoom_def)
  have b: "real (fcard (memberIds exPrivateRoom)) \<ge> maxMembers exPrivateRoom
           \<and> ownerId exPrivateRoom \<noteq> ''S1'' \<and> \<not> ''S1'' |\<in>| moderatorIds exPrivateRoom"
    by (simp add: exPrivateRoom_def fcard_finsert_if fcard_fempty)
  show ?thesis
    using b by (simp add: a getRoomInfo_def exPrivate_room)
qed

text \<open>C3, amended: \<^verbatim>\<open>joinRoom\<close> checks capacity before it changes anything. When the member count
  has reached \<^verbatim>\<open>maxMembers\<close> and the actor is not in the room's moderator set, the call fails
  and leaves the registry, the member set included, as it was; the failure is
  \<^verbatim>\<open>Room is at maximum capacity\<close> when the access check passes or is switched off, and
  \<^verbatim>\<open>Access denied to this room\<close> when the access check, which comes first, fails. A join by
  such an actor succeeds only while the member count is below \<^verbatim>\<open>maxMembers\<close>, and then adds
  that one actor: the count stays below \<^verbatim>\<open>maxMembers + 1\<close>, and, when \<^verbatim>\<open>maxMembers\<close> is a whole
  number that the count did not exceed before, the count does not exceed it after.\<close>

theorem C3_capacity:
  assumes "rooms st rid = Some room"
      and "\<not> userId sock |\<in>| moderatorIds room"
      and "joinRoom st sock rid opts now = (st', res)"
  shows "(real (fcard (memberIds room)) \<ge> maxMembers room \<longrightarrow>
            st' = st \<and> \<not> j_success res \<and> j_roomInfo res = None
          \<and> j_message res = (if o_validateAccess opts = Some False
                                 \<or> canUserJoinRoom (userId sock) room
                              then ''Room is at maximum capacity''
                              else ''Access denied to this room''))
       \<and> (\<exists>room'. rooms st' rid = Some room' \<and> maxMembers room' = maxMembers room
             \<and> (\<not> j_success res \<longrightarrow> room' = room)
             \<and> (j_success res \<longrightarrow>
                   real (fcard (memberIds room)) < maxMembers room
                 \<and> memberIds room' = finsert (userId sock) (memberIds room)
                 \<and> real (fcard (memberIds room')) < maxMembers room' + 1)
             \<and> (maxMembers room \<in> \<int> \<and> real (fcard (memberIds room)) \<le> maxMembers room \<longrightarrow>
                   real (fcard (memberIds room')) \<le> maxMembers room'))"
proof (rule conjI)
  show "real (fcard (memberIds room)) \<ge> maxMembers room \<longrightarrow>
            st' = st \<and> \<not> j_success res \<and> j_roomInfo res = None
          \<and> j_message res = (if o_validateAccess opts = Some False
                                 \<or> canUserJoinRoom (userId sock) room
                              then ''Room is at maximum capacity''
                              else ''Access denied to this room'')"
  proof
    assume full: "real (fcard (memberIds room)) \<ge> maxMembers room"
    from joinRoom_full_fails [OF assms(1) full assms(2), of opts now] assms(3)
    show "st' = st \<and> \<not> j_success res \<and> j_roomInfo res = None
          \<and> j_message res = (if o_validateAccess opts = Some False
                                 \<or> canUserJoinRoom (userId sock) room
                              then ''Room is at maximum capacity''
                              else ''Access denied to this room'')"
      by auto
  qed
next
  show "\<exists>room'. rooms st' rid = Some room' \<and> maxMembers room' = maxMembers room
             \<and> (\<not> j_success res \<longrightarrow> room' = room)
             \<and> (j_success res \<longrightarrow>
                   real (fcard (memberIds room)) < maxMembers room
                 \<and> memberIds room' = finsert (userId sock) (memberIds room)
                 \<and> real (fcard (memberIds room')) < maxMembers room' + 1)
             \<and> (maxMembers room \<in> \<int> \<and> real (fcard (memberIds room)) \<le> maxMembers room \<longrightarrow>
                   real (fcard (memberIds room')) \<le> maxMembers room')"
  proof (cases "j_success res")
    case False
    from joinRoom_failure [OF assms(3) False] have "st' = st" .
    with assms(1) False show ?thesis
      by simp
  next
    case True
    from joinRoom_success [OF assms(3) True] assms(1) obtain room' where
      r: "rooms st' rid = Some room'" "memberIds room' = finsert (userId sock) (memberIds room)"
         "maxMembers room' = maxMembers room"
      by auto
    have below: "real (fcard (memberIds room)) < maxMembers room"
    proof (rule ccontr)
      assume "\<not> real (fcard (memberIds room)) < maxMembers room"
      then have "real (fcard (memberIds room)) \<ge> maxMembers room"
        by simp
      from joinRoom_full_fails [OF assms(1) this assms(2), of opts now] assms(3) True
      show False by simp
    qed
    have step: "real (fcard (memberIds room')) \<le> real (fcard (memberIds room)) + 1"
      by (simp add: r(2) fcard_finsert_if)
    with below have lt: "real (fcard (memberIds room')) < maxMembers room + 1"
      by simp
    have whole: "real (fcard (memberIds room')) \<le> maxMembers room"
      if w: "maxMembers room \<in> \<int>"
    proof -
      from w obtain k :: int where k: "maxMembers room = of_int k"
        by (rule Ints_cases)
      from below have "real_of_int (int (fcard (memberIds room))) < real_of_int k"
        by (simp add: k)
      then have b: "int (fcard (memberIds room)) < k"
        by (simp only: of_int_less_iff)
      from step have "real_of_int (int (fcard (memberIds room')))
                        \<le> real_of_int (int (fcard (memberIds room)) + 1)"
        by simp
      then have "int (fcard (memberIds room')) \<le> int (fcard (memberIds room)) + 1"
        by (simp only: of_int_le_iff)
      with b have "int (fcard (memberIds room')) \<le> k"
        by simp
      then have "real_of_int (int (fcard (memberIds room'))) \<le> real_of_int k"
        by (simp only: of_int_le_iff)
      then show ?thesis
        by (simp add: k)
    qed
    show ?thesis
    proof (intro exI [of _ room'] conjI impI)
      show "rooms st' rid = Some room'" by (rule r(1))
      show "maxMembers room' = maxMembers room" by (rule r(3))
      show "room' = room" if "\<not> j_success res" using that True by simp
      show "real (fcard (memberIds room)) < maxMembers room" by (rule below)
      show "memberIds room' = finsert (userId sock) (memberIds room)" by (rule r(2))
      show "real (fcard (memberIds room')) < maxMembers room' + 1" using lt r(3) by simp
      show "real (fcard (memberIds room')) \<le> maxMembers room'"
        if "maxMembers room \<in> \<int> \<and> real (fcard (memberIds room)) \<le> maxMembers room"
        using whole that r(3) by simp
    qed
  qed
qed

text \<open>The witness for C3: \<open>S1\<close> asks to join the full private room with the access check
  switched off and is refused; \<open>S4\<close> asks to join the example room, which has 4 of its 50
  places taken, and is admitted.\<close>

theorem C3_capacity_witness:
  "rooms exPrivate ''group:1000_k3x'' = Some exPrivateRoom
   \<and> \<not> userId (exSocket ''S1'' STUDENT) |\<in>| moderatorIds exPrivateRoom
   \<and> real (fcard (memberIds exPrivateRoom)) \<ge> maxMembers exPrivateRoom
   \<and> joinRoom exPrivate (exSocket ''S1'' STUDENT) ''group:1000_k3x''
         \<lparr> o_role = None, o_validateAccess = Some False \<rparr> 2000
       = (exPrivate, \<lparr> j_success = False, j_message = ''Room is at maximum capacity'',
                        j_roomInfo = None \<rparr>)
   \<and> rooms exManager ''r'' = Some exRoom
   \<and> \<not> userId (exSocket ''S4'' STUDENT) |\<in>| moderatorIds exRoom
   \<and> maxMembers exRoom \<in> \<int> \<and> real (fcard (memberIds exRoom)) \<le> maxMembers exRoom
   \<and> j_success (snd (joinRoom exManager (exSocket ''S4'' STUDENT) ''r'' exOptions 1000))
   \<and> (\<exists>room'. rooms (fst (joinRoom exManager (exSocket ''S4'' STUDENT) ''r'' exOptions 1000)) ''r''
                  = Some room'
          \<and> memberIds room' = {|''S4'', ''T'', ''S1'', ''S2'', ''S3''|}
          \<and> real (fcard (memberIds room')) \<le> 50)"
proof -
  have b: "real (fcard (memberIds exPrivateRoom)) \<ge> maxMembers exPrivateRoom"
    by (simp add: exPrivateRoom_def fcard_finsert_if fcard_fempty)
  have m: "\<not> userId (exSocket ''S1'' STUDENT) |\<in>| moderatorIds exPrivateRoom"
    by (simp add: exPrivateRoom_def)
  obtain st' res where j: "joinRoom exPrivate (exSocket ''S1'' STUDENT) ''group:1000_k3x''
         \<lparr> o_role = None, o_validateAccess = Some False \<rparr> 2000 = (st', res)"
    by (rule prod.exhaust)
  from C3_capacity [OF exPrivate_room m j] b
  have "st' = exPrivate" "\<not> j_success res" "j_roomInfo res = None"
       "j_message res = ''Room is at maximum capacity''"
    by simp_all
  then have "res = \<lparr> j_success = False, j_message = ''Room is at maximum capacity'',
                        j_roomInfo = None \<rparr>"
    by (cases res) simp
  with j \<open>st' = exPrivate\<close> have first:
    "joinRoom exPrivate (exSocket ''S1'' STUDENT) ''group:1000_k3x''
         \<lparr> o_role = None, o_validateAccess = Some False \<rparr> 2000
       = (exPrivate, \<lparr> j_success = False, j_message = ''Room is at maximum capacity'',
                        j_roomInfo = None \<rparr>)"
    by simp
  have m4: "\<not> userId (exSocket ''S4'' STUDENT) |\<in>| moderatorIds exRoom"
    by simp
  have w: "maxMembers exRoom \<in> \<int>" "real (fcard (memberIds exRoom)) \<le> maxMembers exRoom"
    by (simp_all add: fcard_finsert_if fcard_fempty)
  note c = C3_capacity [OF exManager_rooms m4 surjective_pairing, of exOptions 1000,
                        THEN conjunct2]
  from c obtain room' where
    r: "rooms (fst (joinRoom exManager (exSocket ''S4'' STUDENT) ''r'' exOptions 1000)) ''r''
          = Some room'"
    and s: "j_success (snd (joinRoom exManager (exSocket ''S4'' STUDENT) ''r'' exOptions 1000)) \<longrightarrow>
              real (fcard (memberIds exRoom)) < maxMembers exRoom
            \<and> memberIds room' = finsert (userId (exSocket ''S4'' STUDENT)) (memberIds exRoom)
            \<and> real (fcard (memberIds room')) < maxMembers room' + 1"
    and i: "maxMembers exRoom \<in> \<int> \<and> real (fcard (memberIds exRoom)) \<le> maxMembers exRoom \<longrightarrow>
              real (fcard (memberIds room')) \<le> maxMembers room'"
    and mm: "maxMembers room' = maxMembers exRoom"
    by blast
  from s exJoin_first have ms: "memberIds room' = {|''S4'', ''T'', ''S1'', ''S2'', ''S3''|}"
    by simp
  from i w mm have le: "real (fcard (memberIds room')) \<le> 50"
    by simp
  from r ms le have ex: "\<exists>room'. rooms (fst (joinRoom exManager (exSocket ''S4'' STUDENT) ''r'' exOptions 1000)) ''r''
                  = Some room'
          \<and> memberIds room' = {|''S4'', ''T'', ''S1'', ''S2'', ''S3''|}
          \<and> real (fcard (memberIds room')) \<le> 50"
    by blast
  show ?thesis
    apply (intro conjI)
    apply (rule exPrivate_room)
    apply (rule m)
    apply (rule b)
    apply (rule first)
    apply (rule exManager_rooms)
    apply (rule m4)
    apply (rule w(1))
    apply (rule w(2))
    apply (rule exJoin_first)
    apply (rule ex)
    done
qed

text \<open>When \<^verbatim>\<open>maxMembers\<close> is not a whole number the count can pass it: the room of \<open>exHalf\<close> has
  capacity 1.5 and one member, \<open>S1\<close> is admitted, and the room then has two members.\<close>

lemma exHalf_room:
  "\<exists>room. rooms exHalf ''group:1000_k3x'' = Some room \<and> memberIds room = {|''T''|}
         \<and> moderatorIds room = {|''T''|} \<and> isPublic room \<and> maxMembers room = 3 / 2"
  by (simp add: exHalf_def createRoom_def exHalfData_def newRoomManager_def Let_def)

lemma fractional_capacity_example:
  "j_success (snd (joinRoom exHalf (exSocket ''S1'' STUDENT) ''group:1000_k3x'' exOptions 2000))
   \<and> (\<exists>room'. rooms (fst (joinRoom exHalf (exSocket ''S1'' STUDENT) ''group:1000_k3x'' exOptions 2000))
                   ''group:1000_k3x'' = Some room'
          \<and> memberIds room' = {|''S1'', ''T''|}
          \<and> real (fcard (memberIds room')) > maxMembers room')"
proof -
  from exHalf_room obtain room where
    r: "rooms exHalf ''group:1000_k3x'' = Some room" "memberIds room = {|''T''|}"
       "moderatorIds room = {|''T''|}" "isPublic room" "maxMembers room = 3 / 2"
    by blast
  have s: "j_success (snd (joinRoom exHalf (exSocket ''S1'' STUDENT) ''group:1000_k3x'' exOptions 2000))"
    by (rule joinRoom_admitted_success [OF r(1)])
       (simp_all add: canUserJoinRoom_def r fcard_finsert_if fcard_fempty)
  from joinRoom_success [OF surjective_pairing s] r obtain room' where
    r': "rooms (fst (joinRoom exHalf (exSocket ''S1'' STUDENT) ''group:1000_k3x'' exOptions 2000))
           ''group:1000_k3x'' = Some room'"
        "memberIds room' = finsert ''S1'' {|''T''|}" "maxMembers room' = 3 / 2"
    by auto
  have "real (fcard (memberIds room')) > maxMembers room'"
    by (simp add: r' fcard_finsert_if fcard_fempty)
  with s r' show ?thesis
    by auto
qed

section \<open>The owner's membership (C4)\<close>

text \<open>C4, as stated, fails: \<^verbatim>\<open>leaveRoom\<close> removes whoever leaves. \<open>T\<close> creates a room and then
  leaves it: the room still exists, \<open>T\<close> is still its owner, and its member set is empty.\<close>

theorem C4_owner_leaves_counterexample:
  "map_option ownerId (rooms exCreated ''group:1000_k3x'') = Some ''T''
   \<and> map_option memberIds (rooms exCreated ''group:1000_k3x'') = Some {|''T''|}
   \<and> l_success (snd (leaveRoom exCreated (exSocket ''T'' TEACHER) ''group:1000_k3x'' 2000))
   \<and> map_option ownerId
         (rooms (fst (leaveRoom exCreated (exSocket ''T'' TEACHER) ''group:1000_k3x'' 2000))
            ''group:1000_k3x'') = Some ''T''
   \<and> map_option memberIds
         (rooms (fst (leaveRoom exCreated (exSocket ''T'' TEACHER) ''group:1000_k3x'' 2000))
            ''group:1000_k3x'') = Some {||}"
proof -
  obtain room where r: "rooms exCreated ''group:1000_k3x'' = Some room"
      "ownerId room = ''T''" "memberIds room = {|''T''|}"
    using exCreated_room by (simp add: getRoomInfo_def)
  from leaveRoom_result [OF r(1), of "exSocket ''T'' TEACHER" 2000] r show ?thesis
    by auto
qed

text \<open>C4, amended: \<^verbatim>\<open>createRoom\<close> makes the creator the owner and a member of the new room;
  \<^verbatim>\<open>joinRoom\<close> removes nobody from any room and keeps each owner; \<^verbatim>\<open>leaveRoom\<close> keeps the
  room and its owner and removes exactly the leaving actor from the member set. So the owner
  stays in the member set as long as the actor leaving is not the owner.\<close>

theorem C4_owner_membership:
  "(\<exists>room. snd (createRoom st creatorId roomData now rnd) = Some room
          \<and> rooms (fst (createRoom st creatorId roomData now rnd)) (roomId room) = Some room
          \<and> ownerId room = creatorId \<and> creatorId |\<in>| memberIds room)
   \<and> (rooms st rid' = Some r \<longrightarrow>
        (\<exists>r'. rooms (fst (joinRoom st sock rid opts now)) rid' = Some r'
              \<and> ownerId r' = ownerId r \<and> memberIds r |\<subseteq>| memberIds r'))
   \<and> (rooms st rid = Some r \<longrightarrow>
        (\<exists>r'. rooms (fst (leaveRoom st sock rid now)) rid = Some r'
              \<and> ownerId r' = ownerId r
              \<and> memberIds r' = memberIds r |-| {|userId sock|}
              \<and> (ownerId r \<noteq> userId sock \<and> ownerId r |\<in>| memberIds r
                    \<longrightarrow> ownerId r' |\<in>| memberIds r')))"
proof (rule conjI, goal_cases)
  case 1
  from createRoom_result [of st creatorId roomData now rnd]
  show ?case
    by auto
next
  case 2
  show ?case
  proof (rule conjI; rule impI)
    assume r: "rooms st rid' = Some r"
    show "\<exists>r'. rooms (fst (joinRoom st sock rid opts now)) rid' = Some r'
                \<and> ownerId r' = ownerId r \<and> memberIds r |\<subseteq>| memberIds r'"
    proof (cases "rid' = rid")
      case False
      with joinRoom_other_rooms [of rid' rid st sock opts now] r show ?thesis by simp
    next
      case same: True
      show ?thesis
      proof (cases "j_success (snd (joinRoom st sock rid opts now))")
        case False
        from joinRoom_failure [OF surjective_pairing False] r show ?thesis by simp
      next
        case True
        from joinRoom_success [OF surjective_pairing True] r same show ?thesis by auto
      qed
    qed
  next
    assume r: "rooms st rid = Some r"
    from leaveRoom_result [OF r, of sock now]
    show "\<exists>r'. rooms (fst (leaveRoom st sock rid now)) rid = Some r'
                \<and> ownerId r' = ownerId r
                \<and> memberIds r' = memberIds r |-| {|userId sock|}
                \<and> (ownerId r \<noteq> userId sock \<and> ownerId r |\<in>| memberIds r
                      \<longrightarrow> ownerId r' |\<in>| memberIds r')"
      by auto
  qed
qed

text \<open>The witness for C4: in the example room, the member \<open>S3\<close> leaves and the owner \<open>T\<close> stays; \<open>S4\<close>
  joins and \<open>T\<close> stays.\<close>

theorem C4_owner_membership_witness:
  "rooms exManager ''r'' = Some exRoom
   \<and> ownerId exRoom \<noteq> userId (exSocket ''S3'' STUDENT) \<and> ownerId exRoom |\<in>| memberIds exRoom
   \<and> (\<exists>r'. rooms (fst (leaveRoom exManager (exSocket ''S3'' STUDENT) ''r'' 2000)) ''r'' = Some r'
            \<and> memberIds r' = {|''T'', ''S1'', ''S2''|} \<and> ''T'' |\<in>| memberIds r')
   \<and> (\<exists>r'. rooms (fst (joinRoom exManager (exSocket ''S4'' STUDENT) ''r'' exOptions 1000)) ''r''
              = Some r' \<and> ''T'' |\<in>| memberIds r')"
  using C4_owner_membership [where st = exManager and creatorId = "''T''" and roomData = exData
          and rnd = "''x''" and rid' = "''r''" and rid = "''r''" and r = exRoom
          and sock = "exSocket ''S4'' STUDENT" and opts = exOptions and now = 1000]
        C4_owner_membership [where st = exManager and creatorId = "''T''" and roomData = exData
          and rnd = "''x''" and rid' = "''r''" and rid = "''r''" and r = exRoom
          and sock = "exSocket ''S3'' STUDENT" and opts = exOptions and now = 2000]
  by auto

section \<open>Room creation (C5)\<close>

text \<open>C5, as stated, fails twice: \<^verbatim>\<open>createRoom\<close> checks nothing, and the id it generates is not
  compared with the ids in use. Called with an empty name it returns a room with that name and
  stores it. Called by \<open>S1\<close> when the clock and the random suffix repeat those of \<open>T\<close>'s call,
  it returns the id of \<open>T\<close>'s room, and the registry then holds \<open>S1\<close>'s room under that id.\<close>

theorem C5_no_validation_no_fresh_id_counterexample:
  "d_name exBlankData = []
   \<and> map_option name (snd (createRoom newRoomManager ''T'' exBlankData 1000 ''k3x'')) = Some []
   \<and> map_option name (rooms (fst (createRoom newRoomManager ''T'' exBlankData 1000 ''k3x''))
                         ''group:1000_k3x'') = Some []
   \<and> map_option ownerId (rooms exCreated ''group:1000_k3x'') = Some ''T''
   \<and> map_option roomId (snd (createRoom exCreated ''S1'' exData 1000 ''k3x''))
       = Some ''group:1000_k3x''
   \<and> map_option ownerId (rooms (fst (createRoom exCreated ''S1'' exData 1000 ''k3x''))
                            ''group:1000_k3x'') = Some ''S1''"
proof -
  have a: "map_option name (snd (createRoom newRoomManager ''T'' exBlankData 1000 ''k3x'')) = Some []
   \<and> map_option name (rooms (fst (createRoom newRoomManager ''T'' exBlankData 1000 ''k3x''))
                         ''group:1000_k3x'') = Some []"
    by (simp add: createRoom_def exBlankData_def newRoomManager_def Let_def)
  have b: "map_option ownerId (rooms exCreated ''group:1000_k3x'') = Some ''T''"
    using exCreated_room by (simp add: getRoomInfo_def)
  have c: "map_option roomId (snd (createRoom exCreated ''S1'' exData 1000 ''k3x''))
             = Some ''group:1000_k3x''
   \<and> map_option ownerId (rooms (fst (createRoom exCreated ''S1'' exData 1000 ''k3x''))
                            ''group:1000_k3x'') = Some ''S1''"
    by (simp add: createRoom_def exData_def Let_def)
  show ?thesis
    using a b c by (simp add: exBlankData_def)
qed

text \<open>C5, amended: \<^verbatim>\<open>createRoom\<close> validates nothing and signals no error: for every descriptor,
  an empty name included, it returns a room whose owner, only member and only moderator is the
  creator, and stores it, with an empty member map, under the generated id
  \<^verbatim>\<open>type:timestamp_random\<close>. The id is not compared with the ids in use: it is written whether
  or not a room is stored under it, and when none is, every room of the registry is kept as it
  was.\<close>

theorem C5_create:
  "\<exists>room. snd (createRoom st creatorId data now rnd) = Some room
         \<and> rooms (fst (createRoom st creatorId data now rnd)) = (rooms st)(roomId room \<mapsto> room)
         \<and> roomMembers (fst (createRoom st creatorId data now rnd))
              = (roomMembers st)(roomId room \<mapsto> [])
         \<and> roomId room = roomTypeStr (d_roomType data) @ '':'' @ showInt now @ ''_'' @ rnd
         \<and> name room = d_name data
         \<and> ownerId room = creatorId
         \<and> memberIds room = {|creatorId|}
         \<and> moderatorIds room = {|creatorId|}
         \<and> (rooms st (roomId room) = None \<longrightarrow>
               (\<forall>rid'. rooms st rid' \<noteq> None \<longrightarrow>
                  rooms (fst (createRoom st creatorId data now rnd)) rid' = rooms st rid'))"
proof -
  from createRoom_result [of st creatorId data now rnd] obtain room where
    r: "snd (createRoom st creatorId data now rnd) = Some room
         \<and> rooms (fst (createRoom st creatorId data now rnd)) = (rooms st)(roomId room \<mapsto> room)
         \<and> roomMembers (fst (createRoom st creatorId data now rnd))
              = (roomMembers st)(roomId room \<mapsto> [])
         \<and> roomId room = roomTypeStr (d_roomType data) @ '':'' @ showInt now @ ''_'' @ rnd
         \<and> name room = d_name data
         \<and> ownerId room = creatorId
         \<and> memberIds room = {|creatorId|}
         \<and> moderatorIds room = {|creatorId|}"
    by (rule exE)
  from r have u: "rooms (fst (createRoom st creatorId data now rnd))
                    = (rooms st)(roomId room \<mapsto> room)"
    by (rule conjunct2 [THEN conjunct1])
  have k: "rooms st (roomId room) = None \<longrightarrow>
          (\<forall>rid'. rooms st rid' \<noteq> None \<longrightarrow>
             rooms (fst (createRoom st creatorId data now rnd)) rid' = rooms st rid')"
    unfolding u by auto
  show ?thesis
    apply (rule exI [of _ room])
    apply (intro conjI)
            apply (rule r [THEN conjunct1])
           apply (rule r [THEN conjunct2, THEN conjunct1])
          apply (rule r [THEN conjunct2, THEN conjunct2, THEN conjunct1])
         apply (rule r [THEN conjunct2, THEN conjunct2, THEN conjunct2, THEN conjunct1])
        apply (rule r [THEN conjunct2, THEN conjunct2, THEN conjunct2, THEN conjunct2,
                       THEN conjunct1])
       apply (rule r [THEN conjunct2, THEN conjunct2, THEN conjunct2, THEN conjunct2,
                      THEN conjunct2, THEN conjunct1])
      apply (rule r [THEN conjunct2, THEN conjunct2, THEN conjunct2, THEN conjunct2,
                     THEN conjunct2, THEN conjunct2, THEN conjunct1])
     apply (rule r [THEN conjunct2, THEN conjunct2, THEN conjunct2, THEN conjunct2,
                    THEN conjunct2, THEN conjunct2, THEN conjunct2])
    apply (rule k)
    done
qed

text \<open>The witness for C5: \<open>T\<close> creates the room \<open>ClassX\<close> in the registry that holds the example
  room \<open>r\<close>; the generated id is not in use, and \<open>r\<close> is kept.\<close>

theorem C5_create_witness:
  "rooms exManager ''group:1000_k3x'' = None
   \<and> rooms exManager ''r'' \<noteq> None
   \<and> rooms (fst (createRoom exManager ''T'' exData 1000 ''k3x'')) ''r'' = rooms exManager ''r''
   \<and> (\<exists>room. snd (createRoom exManager ''T'' exData 1000 ''k3x'') = Some room
          \<and> roomId room = ''group:1000_k3x'' \<and> name room = ''ClassX''
          \<and> ownerId room = ''T'' \<and> memberIds room = {|''T''|} \<and> moderatorIds room = {|''T''|})"
proof -
  have n: "rooms exManager ''group:1000_k3x'' = None"
    by (simp add: exManager_def)
  have e: "rooms exManager ''r'' \<noteq> None"
    by simp
  have d: "roomTypeStr (d_roomType exData) @ '':'' @ showInt 1000 @ ''_'' @ ''k3x''
             = ''group:1000_k3x''"
    by (simp add: exData_def)
  have d': "d_name exData = ''ClassX''"
    by (simp add: exData_def)
  from C5_create [of exManager "''T''" exData 1000 "''k3x''"] obtain room where
    r: "snd (createRoom exManager ''T'' exData 1000 ''k3x'') = Some room
         \<and> rooms (fst (createRoom exManager ''T'' exData 1000 ''k3x''))
              = (rooms exManager)(roomId room \<mapsto> room)
         \<and> roomMembers (fst (createRoom exManager ''T'' exData 1000 ''k3x''))
              = (roomMembers exManager)(roomId room \<mapsto> [])
         \<and> roomId room = roomTypeStr (d_roomType exData) @ '':'' @ showInt 1000 @ ''_'' @ ''k3x''
         \<and> name room = d_name exData
         \<and> ownerId room = ''T''
         \<and> memberIds room = {|''T''|}
         \<and> moderatorIds room = {|''T''|}
         \<and> (rooms exManager (roomId room) = None \<longrightarrow>
               (\<forall>rid'. rooms exManager rid' \<noteq> None \<longrightarrow>
                  rooms (fst (createRoom exManager ''T'' exData 1000 ''k3x'')) rid'
                    = rooms exManager rid'))"
    by (rule exE)
  have r1: "snd (createRoom exManager ''T'' exData 1000 ''k3x'') = Some room"
    by (rule r [THEN conjunct1])
  have r4: "roomId room = ''group:1000_k3x''"
    using r [THEN conjunct2, THEN conjunct2, THEN conjunct2, THEN conjunct1] d by simp
  have r5: "name room = ''ClassX''"
    using r [THEN conjunct2, THEN conjunct2, THEN conjunct2, THEN conjunct2, THEN conjunct1] d'
    by simp
  have r6: "ownerId room = ''T''"
    by (rule r [THEN conjunct2, THEN conjunct2, THEN conjunct2, THEN conjunct2, THEN conjunct2,
                THEN conjunct1])
  have r7: "memberIds room = {|''T''|}"
    by (rule r [THEN conjunct2, THEN conjunct2, THEN conjunct2, THEN conjunct2, THEN conjunct2,
                THEN conjunct2, THEN conjunct1])
  have r8: "moderatorIds room = {|''T''|}"
    by (rule r [THEN conjunct2, THEN conjunct2, THEN conjunct2, THEN conjunct2, THEN conjunct2,
                THEN conjunct2, THEN conjunct2, THEN conjunct1])
  have r9: "rooms exManager (roomId room) = None \<longrightarrow>
               (\<forall>rid'. rooms exManager rid' \<noteq> None \<longrightarrow>
                  rooms (fst (createRoom exManager ''T'' exData 1000 ''k3x'')) rid'
                    = rooms exManager rid')"
    by (rule r [THEN conjunct2, THEN conjunct2, THEN conjunct2, THEN conjunct2, THEN conjunct2,
                THEN conjunct2, THEN conjunct2, THEN conjunct2])
  have n': "rooms exManager (roomId room) = None"
    using n by (simp only: r4)
  from r9 n' have "\<forall>rid'. rooms exManager rid' \<noteq> None \<longrightarrow>
                  rooms (fst (createRoom exManager ''T'' exData 1000 ''k3x'')) rid'
                    = rooms exManager rid'"
    by (rule mp)
  then have "rooms exManager ''r'' \<noteq> None \<longrightarrow>
               rooms (fst (createRoom exManager ''T'' exData 1000 ''k3x'')) ''r''
                 = rooms exManager ''r''"
    by (rule spec)
  then have k: "rooms (fst (createRoom exManager ''T'' exData 1000 ''k3x'')) ''r''
                  = rooms exManager ''r''"
    using e by (rule mp)
  have ex: "\<exists>room. snd (createRoom exManager ''T'' exData 1000 ''k3x'') = Some room
          \<and> roomId room = ''group:1000_k3x'' \<and> name room = ''ClassX''
          \<and> ownerId room = ''T'' \<and> memberIds room = {|''T''|} \<and> moderatorIds room = {|''T''|}"
    apply (rule exI [of _ room])
    apply (intro conjI)
         apply (rule r1)
        apply (rule r4)
       apply (rule r5)
      apply (rule r6)
     apply (rule r7)
    apply (rule r8)
    done
  show ?thesis
    apply (intro conjI)
       apply (rule n)
      apply (rule e)
     apply (rule k)
    apply (rule ex)
    done
qed

section \<open>Engagement tiers (C9)\<close>

text \<open>The loop of \<^verbatim>\<open>calculateUserEngagement\<close> counts, tier by tier, the activities that meet
  the tier's condition.\<close>

lemma engagement_fold:
  "e_veryActive (foldl engagementStep e xs)
     = e_veryActive e + length (filter (\<lambda>a. messagesCount a > 10) xs)
   \<and> e_active (foldl engagementStep e xs)
     = e_active e + length (filter (\<lambda>a. 3 \<le> messagesCount a \<and> messagesCount a \<le> 10) xs)
   \<and> e_passive (foldl engagementStep e xs)
     = e_passive e + length (filter (\<lambda>a. 1 \<le> messagesCount a \<and> messagesCount a \<le> 2) xs)
   \<and> e_lurkers (foldl engagementStep e xs)
     = e_lurkers e + length (filter (\<lambda>a. messagesCount a = 0 \<and> isCurrentlyActive a) xs)"
proof (induction xs arbitrary: e)
  case Nil
  then show ?case by simp
next
  case (Cons a xs)
  have step:
    "e_veryActive (engagementStep e a)
       = e_veryActive e + (if messagesCount a > 10 then 1 else 0)"
    "e_active (engagementStep e a)
       = e_active e + (if 3 \<le> messagesCount a \<and> messagesCount a \<le> 10 then 1 else 0)"
    "e_passive (engagementStep e a)
       = e_passive e + (if 1 \<le> messagesCount a \<and> messagesCount a \<le> 2 then 1 else 0)"
    "e_lurkers (engagementStep e a)
       = e_lurkers e + (if messagesCount a = 0 \<and> isCurrentlyActive a then 1 else 0)"
    by (auto simp: engagementStep_def Let_def)
  from Cons.IH [of "engagementStep e a"] show ?case
    by (simp add: step)
qed

lemma tiers_partition:
  "length (filter (\<lambda>a. messagesCount a > 10) xs)
   + length (filter (\<lambda>a. 3 \<le> messagesCount a \<and> messagesCount a \<le> 10) xs)
   + length (filter (\<lambda>a. 1 \<le> messagesCount a \<and> messagesCount a \<le> 2) xs)
   + length (filter (\<lambda>a. messagesCount a = 0 \<and> isCurrentlyActive a) xs)
   + length (filter (\<lambda>a. messagesCount a = 0 \<and> \<not> isCurrentlyActive a) xs)
   = length (xs :: UserActivity list)"
  by (induction xs) auto

lemma generateRoomMetrics_engagement:
  assumes "getRoomInfo rm rid \<noteq> None"
  shows "\<exists>metrics. snd (generateRoomMetrics rm am rid now) = Some metrics
           \<and> userEngagement metrics
               = calculateUserEngagement (case userActivities am rid of None \<Rightarrow> [] | Some m \<Rightarrow> m)"
  using assms by (auto simp: generateRoomMetrics_def Let_def)

lemma exAnalytics_activities:
  "userActivities exAnalytics ''r''
     = Some [(''S3'', \<lparr> ua_userId = ''S3'', ua_roomId = ''r'', messagesCount = 0,
                       ua_lastActivity = 2000, sessionStart = 1000, totalTimeSpent = 1 / 60,
                       fileUploads = 0, reactionsGiven = 0, mentionsReceived = 0,
                       isCurrentlyActive = False \<rparr>)]"
  by (simp add: exAnalytics_def recordUserActivity_def newRoomAnalyticsManager_def Let_def)

text \<open>C9, as stated, fails in its sum: an actor with no message who is not currently active
  is counted in no tier. \<open>S3\<close> joins the example room and leaves it without a message; the room
  then tracks one actor and the four tier counts of its snapshot are all zero.\<close>

theorem C9_absent_actor_uncounted_counterexample:
  "trackedActors exAnalytics ''r'' = 1
   \<and> map_option userEngagement (snd (generateRoomMetrics exManager exAnalytics ''r'' 3000))
       = Some \<lparr> e_veryActive = 0, e_active = 0, e_passive = 0, e_lurkers = 0 \<rparr>
   \<and> engagementTotal \<lparr> e_veryActive = 0, e_active = 0, e_passive = 0, e_lurkers = 0 \<rparr> = 0"
proof -
  from generateRoomMetrics_engagement [of exManager "''r''" exAnalytics 3000]
  obtain metrics where
    m: "snd (generateRoomMetrics exManager exAnalytics ''r'' 3000) = Some metrics"
       "userEngagement metrics
          = calculateUserEngagement (case userActivities exAnalytics ''r'' of
                                       None \<Rightarrow> [] | Some m \<Rightarrow> m)"
    by auto
  have "userEngagement metrics = \<lparr> e_veryActive = 0, e_active = 0, e_passive = 0, e_lurkers = 0 \<rparr>"
    by (simp add: m(2) exAnalytics_activities calculateUserEngagement_def engagementStep_def)
  with m(1) show ?thesis
    by (simp add: trackedActors_def exAnalytics_activities engagementTotal_def)
qed

text \<open>C9, amended: the snapshot of an existing room classifies each tracked actor by message
  count: more than 10 very-active, 3 to 10 active, 1 or 2 passive, none but currently active
  lurker; an actor with no message who is not currently active falls in no tier. The four
  tier counts therefore sum to the number of tracked actors less those with no message who
  are not currently active.\<close>

theorem C9_engagement_tiers:
  assumes "getRoomInfo rm rid \<noteq> None"
  shows "\<exists>metrics.
           snd (generateRoomMetrics rm am rid now) = Some metrics
         \<and> e_veryActive (userEngagement metrics)
             = length (filter (\<lambda>a. messagesCount a > 10)
                         (map snd (case userActivities am rid of None \<Rightarrow> [] | Some m \<Rightarrow> m)))
         \<and> e_active (userEngagement metrics)
             = length (filter (\<lambda>a. 3 \<le> messagesCount a \<and> messagesCount a \<le> 10)
                         (map snd (case userActivities am rid of None \<Rightarrow> [] | Some m \<Rightarrow> m)))
         \<and> e_passive (userEngagement metrics)
             = length (filter (\<lambda>a. 1 \<le> messagesCount a \<and> messagesCount a \<le> 2)
                         (map snd (case userActivities am rid of None \<Rightarrow> [] | Some m \<Rightarrow> m)))
         \<and> e_lurkers (userEngagement metrics)
             = length (filter (\<lambda>a. messagesCount a = 0 \<and> isCurrentlyActive a)
                         (map snd (case userActivities am rid of None \<Rightarrow> [] | Some m \<Rightarrow> m)))
         \<and> engagementTotal (userEngagement metrics)
             + length (filter (\<lambda>a. messagesCount a = 0 \<and> \<not> isCurrentlyActive a)
                         (map snd (case userActivities am rid of None \<Rightarrow> [] | Some m \<Rightarrow> m)))
             = trackedActors am rid"
proof -
  let ?acts = "case userActivities am rid of None \<Rightarrow> [] | Some m \<Rightarrow> m"
  from generateRoomMetrics_engagement [OF assms, of am now] obtain metrics where
    m: "snd (generateRoomMetrics rm am rid now) = Some metrics"
       "userEngagement metrics = calculateUserEngagement ?acts"
    by blast
  have t: "trackedActors am rid = length (map snd ?acts)"
    by (simp add: trackedActors_def split: option.splits)
  note f = engagement_fold [of "\<lparr> e_veryActive = 0, e_active = 0, e_passive = 0, e_lurkers = 0 \<rparr>"
                              "map snd ?acts"]
  have e: "e_veryActive (userEngagement metrics)
             = length (filter (\<lambda>a. messagesCount a > 10) (map snd ?acts))"
          "e_active (userEngagement metrics)
             = length (filter (\<lambda>a. 3 \<le> messagesCount a \<and> messagesCount a \<le> 10) (map snd ?acts))"
          "e_passive (userEngagement metrics)
             = length (filter (\<lambda>a. 1 \<le> messagesCount a \<and> messagesCount a \<le> 2) (map snd ?acts))"
          "e_lurkers (userEngagement metrics)
             = length (filter (\<lambda>a. messagesCount a = 0 \<and> isCurrentlyActive a) (map snd ?acts))"
    using f by (simp_all add: m(2) calculateUserEngagement_def)
  have s: "engagementTotal (userEngagement metrics)
             + length (filter (\<lambda>a. messagesCount a = 0 \<and> \<not> isCurrentlyActive a) (map snd ?acts))
             = trackedActors am rid"
    unfolding engagementTotal_def e t
    by (rule tiers_partition)
  show ?thesis
    using m(1) e s by blast
qed

text \<open>The witness for C9, after scenario 9 of the specification: the snapshot of the example
  room with the activity of \<open>exTracked\<close>.\<close>

theorem C9_engagement_tiers_witness:
  "getRoomInfo exManager ''r'' \<noteq> None
   \<and> trackedActors exTracked ''r'' = 3
   \<and> (\<exists>metrics. snd (generateRoomMetrics exManager exTracked ''r'' 3000) = Some metrics
         \<and> e_veryActive (userEngagement metrics) = 1
         \<and> e_active (userEngagement metrics) = 0
         \<and> e_passive (userEngagement metrics) = 0
         \<and> e_lurkers (userEngagement metrics) = 1
         \<and> engagementTotal (userEngagement metrics) = 2)"
proof -
  have r: "getRoomInfo exManager ''r'' \<noteq> None"
    by simp
  have a: "(case userActivities exTracked ''r'' of None \<Rightarrow> [] | Some m \<Rightarrow> m)
             = [(''S1'', exActivity ''S1'' 12 True), (''S2'', exActivity ''S2'' 0 True),
                (''S3'', exActivity ''S3'' 0 False)]"
    by (simp add: exTracked_def)
  have f: "messagesCount (exActivity u n b) = n" "isCurrentlyActive (exActivity u n b) = b" for u n b
    by (simp_all add: exActivity_def)
  from C9_engagement_tiers [OF r, of exTracked 3000] obtain metrics where
    m: "snd (generateRoomMetrics exManager exTracked ''r'' 3000) = Some metrics"
       "e_veryActive (userEngagement metrics) = 1"
       "e_active (userEngagement metrics) = 0"
       "e_passive (userEngagement metrics) = 0"
       "e_lurkers (userEngagement metrics) = 1"
    unfolding a by (auto simp: f)
  have t: "trackedActors exTracked ''r'' = 3"
    by (simp add: trackedActors_def exTracked_def)
  from m have "engagementTotal (userEngagement metrics) = 2"
    by (simp add: engagementTotal_def)
  with r t m show ?thesis
    by blast
qed

end
